theory Spec2Isabelle
  imports Complex_Main
begin

section \<open>Numbers and arrays of the numerical library\<close>

text \<open>
  The programs compute on 64-bit floating-point arrays. A floating-point value is read
  here as a real number, or one of the three special values of the format: the two
  infinities and not-a-number. Rounding, overflow and the sign of zero are not
  modelled: a finite result is the exact real result. What is modelled is where a
  special value appears (a division by zero, the root of a negative number, the
  cosine of an infinity) and how it propagates.
\<close>

datatype npfloat = Num real | PInf | NInf | NaN

instantiation npfloat :: "{plus, uminus, minus, times, inverse}"
begin

fun plus_npfloat :: "npfloat \<Rightarrow> npfloat \<Rightarrow> npfloat" where
  "plus_npfloat (Num a) (Num b) = Num (a + b)"
| "plus_npfloat NaN _ = NaN"
| "plus_npfloat _ NaN = NaN"
| "plus_npfloat PInf NInf = NaN"
| "plus_npfloat NInf PInf = NaN"
| "plus_npfloat PInf _ = PInf"
| "plus_npfloat _ PInf = PInf"
| "plus_npfloat NInf _ = NInf"
| "plus_npfloat _ NInf = NInf"

fun uminus_npfloat :: "npfloat \<Rightarrow> npfloat" where
  "uminus_npfloat (Num a) = Num (- a)"
| "uminus_npfloat PInf = NInf"
| "uminus_npfloat NInf = PInf"
| "uminus_npfloat NaN = NaN"

definition minus_npfloat :: "npfloat \<Rightarrow> npfloat \<Rightarrow> npfloat" where
  "minus_npfloat a b = a + (- b)"

text \<open>The sign of an infinity times a finite number; zero times infinity is not a number.\<close>

fun inf_times :: "bool \<Rightarrow> real \<Rightarrow> npfloat" where
  "inf_times pos b =
     (if b = 0 then NaN else if (0 < b) = pos then PInf else NInf)"

fun times_npfloat :: "npfloat \<Rightarrow> npfloat \<Rightarrow> npfloat" where
  "times_npfloat (Num a) (Num b) = Num (a * b)"
| "times_npfloat NaN _ = NaN"
| "times_npfloat _ NaN = NaN"
| "times_npfloat PInf (Num b) = inf_times True b"
| "times_npfloat NInf (Num b) = inf_times False b"
| "times_npfloat (Num a) PInf = inf_times True a"
| "times_npfloat (Num a) NInf = inf_times False a"
| "times_npfloat PInf PInf = PInf"
| "times_npfloat NInf NInf = PInf"
| "times_npfloat PInf NInf = NInf"
| "times_npfloat NInf PInf = NInf"

text \<open>
  Array division does not raise: a finite number over zero is an infinity of the
  numerator's sign, zero over zero is not a number.
\<close>

fun divide_npfloat :: "npfloat \<Rightarrow> npfloat \<Rightarrow> npfloat" where
  "divide_npfloat (Num a) (Num b) =
     (if b = 0 then (if a = 0 then NaN else if 0 < a then PInf else NInf)
      else Num (a / b))"
| "divide_npfloat NaN _ = NaN"
| "divide_npfloat _ NaN = NaN"
| "divide_npfloat (Num a) _ = Num 0"
| "divide_npfloat PInf (Num b) = (if 0 \<le> b then PInf else NInf)"
| "divide_npfloat NInf (Num b) = (if 0 \<le> b then NInf else PInf)"
| "divide_npfloat _ _ = NaN"

definition inverse_npfloat :: "npfloat \<Rightarrow> npfloat" where
  "inverse_npfloat a = divide (Num 1) a"

instance ..

end

fun np_abs :: "npfloat \<Rightarrow> npfloat" where
  "np_abs (Num a) = Num \<bar>a\<bar>"
| "np_abs PInf = PInf"
| "np_abs NInf = PInf"
| "np_abs NaN = NaN"

fun np_cos :: "npfloat \<Rightarrow> npfloat" where
  "np_cos (Num a) = Num (cos a)"
| "np_cos _ = NaN"

fun np_sin :: "npfloat \<Rightarrow> npfloat" where
  "np_sin (Num a) = Num (sin a)"
| "np_sin _ = NaN"

fun np_sqrt :: "npfloat \<Rightarrow> npfloat" where
  "np_sqrt (Num a) = (if a < 0 then NaN else Num (sqrt a))"
| "np_sqrt PInf = PInf"
| "np_sqrt _ = NaN"

text \<open>\<open>np.power\<close> with a natural exponent; any base to the power 0 is 1.\<close>

fun np_power :: "npfloat \<Rightarrow> nat \<Rightarrow> npfloat" where
  "np_power x 0 = Num 1"
| "np_power (Num a) n = Num (a ^ n)"
| "np_power PInf n = PInf"
| "np_power NInf n = (if even n then PInf else NInf)"
| "np_power NaN n = NaN"

text \<open>The comparison \<open>a > b\<close>; every comparison with not-a-number is false.\<close>

fun np_greater :: "npfloat \<Rightarrow> npfloat \<Rightarrow> bool" where
  "np_greater (Num a) (Num b) = (b < a)"
| "np_greater NaN _ = False"
| "np_greater _ NaN = False"
| "np_greater PInf PInf = False"
| "np_greater PInf _ = True"
| "np_greater _ PInf = False"
| "np_greater NInf _ = False"
| "np_greater _ NInf = True"

text \<open>\<open>np.sum\<close> and \<open>np.prod\<close> along one row.\<close>

definition np_sum :: "npfloat list \<Rightarrow> npfloat" where
  "np_sum xs = foldl (+) (Num 0) xs"

definition np_prod :: "npfloat list \<Rightarrow> npfloat" where
  "np_prod xs = foldl (*) (Num 1) xs"

fun is_finite :: "npfloat \<Rightarrow> bool" where
  "is_finite (Num a) = True"
| "is_finite _ = False"

text \<open>
  A two-dimensional array has a shape \<open>(N, M)\<close> and \<open>N\<close> rows of \<open>M\<close> entries; the
  column count is kept beside the rows, since an array with no rows still has one.
  A one-dimensional array is a list.
\<close>

record 'a matrix =
  n_cols :: nat
  rows :: "'a list list"

definition n_rows :: "'a matrix \<Rightarrow> nat" where
  "n_rows m = length (rows m)"

definition wf_matrix :: "'a matrix \<Rightarrow> bool" where
  "wf_matrix m = list_all (\<lambda>r. length r = n_cols m) (rows m)"

definition mat_map :: "('a \<Rightarrow> 'b) \<Rightarrow> 'a matrix \<Rightarrow> 'b matrix" where
  "mat_map h m = \<lparr>n_cols = n_cols m, rows = map (map h) (rows m)\<rparr>"

text \<open>The exceptions the programs can raise, with the key of a \<open>KeyError\<close>.\<close>

datatype py_key = KStr string | KInt int

datatype py_error =
  IndexError | KeyError py_key | ValueError | TypeError | ZeroDivisionError

text \<open>\<open>m[:, j]\<close> for a column index \<open>j \<ge> 0\<close>.\<close>

definition column :: "'a matrix \<Rightarrow> nat \<Rightarrow> py_error + 'a list" where
  "column m j =
     (if j < n_cols m then Inr (map (\<lambda>r. r ! j) (rows m)) else Inl IndexError)"

text \<open>
  \<open>m[:, j] = v\<close>: the vector \<open>v\<close> must have one entry per row, or a single entry that
  is written to every row.
\<close>

definition assign_col :: "'a matrix \<Rightarrow> nat \<Rightarrow> 'a list \<Rightarrow> py_error + 'a matrix" where
  "assign_col m j v =
     (if \<not> j < n_cols m then Inl IndexError
      else if length v = n_rows m
        then Inr (m\<lparr>rows := map2 (\<lambda>r a. r[j := a]) (rows m) v\<rparr>)
      else if length v = 1
        then Inr (m\<lparr>rows := map (\<lambda>r. r[j := v ! 0]) (rows m)\<rparr>)
      else Inl ValueError)"

text \<open>
  Broadcasting of two dimensions: equal, or one of them 1, else the operation raises.
\<close>

definition bdim :: "nat \<Rightarrow> nat \<Rightarrow> nat option" where
  "bdim a b = (if a = b then Some a else if a = 1 then Some b
               else if b = 1 then Some a else None)"

definition bget :: "'a matrix \<Rightarrow> nat \<Rightarrow> nat \<Rightarrow> 'a" where
  "bget m i j =
     rows m ! (if n_rows m = 1 then 0 else i) ! (if n_cols m = 1 then 0 else j)"

definition broadcast2 ::
  "('a \<Rightarrow> 'a \<Rightarrow> 'a) \<Rightarrow> 'a matrix \<Rightarrow> 'a matrix \<Rightarrow> py_error + 'a matrix" where
  "broadcast2 h a b =
     (case (bdim (n_rows a) (n_rows b), bdim (n_cols a) (n_cols b)) of
        (Some r, Some c) \<Rightarrow>
          Inr \<lparr>n_cols = c,
               rows = map (\<lambda>i. map (\<lambda>j. h (bget a i j) (bget b i j)) [0..<c]) [0..<r]\<rparr>
      | _ \<Rightarrow> Inl ValueError)"

text \<open>A one-dimensional operand of a two-dimensional operation is a single row.\<close>

definition as_row :: "'a list \<Rightarrow> 'a matrix" where
  "as_row v = \<lparr>n_cols = length v, rows = [v]\<rparr>"

text \<open>\<open>v.reshape(-1, 1)\<close>: a vector as a matrix of one column.\<close>

definition as_column :: "'a list \<Rightarrow> 'a matrix" where
  "as_column v = \<lparr>n_cols = 1, rows = map (\<lambda>a. [a]) v\<rparr>"

text \<open>Two one-dimensional operands.\<close>

definition broadcast1 ::
  "('a \<Rightarrow> 'a \<Rightarrow> 'a) \<Rightarrow> 'a list \<Rightarrow> 'a list \<Rightarrow> py_error + 'a list" where
  "broadcast1 h u v =
     (if length u = length v then Inr (map2 h u v)
      else if length v = 1 then Inr (map (\<lambda>a. h a (v ! 0)) u)
      else if length u = 1 then Inr (map (\<lambda>b. h (u ! 0) b) v)
      else Inl ValueError)"

text \<open>\<open>np.hstack((a, b))\<close> of two matrices: the row counts must agree.\<close>

definition hstack :: "'a matrix \<Rightarrow> 'a matrix \<Rightarrow> py_error + 'a matrix" where
  "hstack a b =
     (if n_rows a = n_rows b
      then Inr \<lparr>n_cols = n_cols a + n_cols b, rows = map2 (@) (rows a) (rows b)\<rparr>
      else Inl ValueError)"

text \<open>
  The slices \<open>m[:, :k]\<close> and \<open>m[:, k:]\<close> for an integer \<open>k\<close>; a negative \<open>k\<close> counts
  from the end, and a bound outside the array is clipped.
\<close>

definition slice_bound :: "int \<Rightarrow> nat \<Rightarrow> nat" where
  "slice_bound k len = (if 0 \<le> k then min (nat k) len else len - nat (- k))"

definition cols_to :: "'a matrix \<Rightarrow> int \<Rightarrow> 'a matrix" where
  "cols_to m k =
     \<lparr>n_cols = slice_bound k (n_cols m),
      rows = map (take (slice_bound k (n_cols m))) (rows m)\<rparr>"

definition cols_from :: "'a matrix \<Rightarrow> int \<Rightarrow> 'a matrix" where
  "cols_from m k =
     \<lparr>n_cols = n_cols m - slice_bound k (n_cols m),
      rows = map (drop (slice_bound k (n_cols m))) (rows m)\<rparr>"

text \<open>Sequencing of computations that may raise: the first exception ends the call.\<close>

definition bind_err :: "py_error + 'a \<Rightarrow> ('a \<Rightarrow> py_error + 'b) \<Rightarrow> py_error + 'b" where
  "bind_err m k = (case m of Inl e \<Rightarrow> Inl e | Inr a \<Rightarrow> k a)"

text \<open>
  The global random source is a stream of numbers; \<open>np.random.rand(n)\<close> takes the
  next \<open>n\<close> of them and leaves the rest.
\<close>

type_synonym rng = "nat \<Rightarrow> real"

definition rand :: "nat \<Rightarrow> rng \<Rightarrow> npfloat list \<times> rng" where
  "rand n g = (map (\<lambda>i. Num (g i)) [0..<n], \<lambda>i. g (i + n))"

text \<open>The decimal numeral of a natural number, as an f-string writes it.\<close>

function string_of_nat :: "nat \<Rightarrow> string" where
  "string_of_nat n =
     (if n < 10 then [''0123456789'' ! n]
      else string_of_nat (n div 10) @ [''0123456789'' ! (n mod 10)])"
  by pat_completeness auto
termination
  by (relation "measure id") auto

declare string_of_nat.simps [simp del]

section \<open>The error functions (wang_error_functions.py)\<close>

text \<open>
  The last line shared by \<open>e_r1\<close>, \<open>e_r2\<close> and \<open>e_r3\<close>:
  \<open>np.sum(a * np.cos(w * x + b + np.pi), axis=1)\<close>, where \<open>a\<close>, \<open>w\<close> and \<open>b\<close> are
  the constants \<open>theta\<close>, \<open>10 * pi * theta\<close> and \<open>0.5 * pi * theta\<close> spread over the
  shape of \<open>x\<close>.
\<close>

definition resolution_error :: "real \<Rightarrow> npfloat matrix \<Rightarrow> npfloat list" where
  "resolution_error theta x =
     map (\<lambda>r. np_sum (map (\<lambda>xi. Num theta *
                np_cos (Num (10 * pi * theta) * xi + Num (0.5 * pi * theta) + Num pi)) r))
         (rows x)"

definition e_r1 :: "npfloat matrix \<Rightarrow> real \<Rightarrow> rng \<Rightarrow> py_error + npfloat list \<times> rng" where
  "e_r1 x phi g = (let theta = 1 - 0.0001 * phi in Inr (resolution_error theta x, g))"

definition e_r2 :: "npfloat matrix \<Rightarrow> real \<Rightarrow> rng \<Rightarrow> py_error + npfloat list \<times> rng" where
  "e_r2 x phi g = (let theta = exp (- 0.00025 * phi) in Inr (resolution_error theta x, g))"

definition e_r3_theta :: "real \<Rightarrow> real" where
  "e_r3_theta phi =
     (if phi < 1000 then 1 - 0.0002 * phi
      else if phi < 2000 then 0.8
      else if phi < 3000 then 1.2 - 0.0002 * phi
      else if phi < 4000 then 0.6
      else if phi < 5000 then 1.4 - 0.0002 * phi
      else if phi < 6000 then 0.4
      else if phi < 7000 then 1.6 - 0.0002 * phi
      else if phi < 8000 then 0.2
      else if phi < 9000 then 1.8 - 0.0002 * phi
      else 0)"

definition e_r3 :: "npfloat matrix \<Rightarrow> real \<Rightarrow> rng \<Rightarrow> py_error + npfloat list \<times> rng" where
  "e_r3 x phi g = (let theta = e_r3_theta phi in Inr (resolution_error theta x, g))"

text \<open>
  \<open>e_r4\<close> takes a third argument, the vector \<open>x_b\<close>; \<open>x - x_b\<close> and the products with
  \<open>psi\<close> follow the broadcasting rules.
\<close>

definition e_r4 ::
  "npfloat matrix \<Rightarrow> real \<Rightarrow> npfloat list \<Rightarrow> rng \<Rightarrow> py_error + npfloat list \<times> rng" where
  "e_r4 x phi x_b g =
     (let theta = 1 - 0.0001 * phi in
      bind_err (broadcast2 (\<lambda>xi bi. xi - bi) x (as_row x_b)) (\<lambda>diff.
      let psi = mat_map (\<lambda>t. Num 1 - np_abs t) diff in
      bind_err (broadcast2 (*) (mat_map (\<lambda>_. Num theta) x) psi) (\<lambda>a.
      let c = mat_map (\<lambda>xi. np_cos (Num (10 * pi * theta) * xi
                                     + Num (0.5 * pi * theta) + Num pi)) x in
      bind_err (broadcast2 (*) a c) (\<lambda>t.
      Inr (map np_sum (rows t), g)))))"

definition e_s1 :: "npfloat matrix \<Rightarrow> real \<Rightarrow> rng \<Rightarrow> py_error + npfloat list \<times> rng" where
  "e_s1 x phi g =
     (let n = n_rows x; nu = 1 - 0.0001 * phi; sigma = 0.1 * nu; mu = 0;
          (r, g') = rand n g
      in Inr (map (\<lambda>ri. ri * Num sigma + Num mu) r, g'))"

definition e_s2 :: "npfloat matrix \<Rightarrow> real \<Rightarrow> rng \<Rightarrow> py_error + npfloat list \<times> rng" where
  "e_s2 x phi g =
     (let n = n_rows x; nu = exp (- 0.0005 * phi); sigma = 0.1 * nu; mu = 0;
          (r, g') = rand n g
      in Inr (map (\<lambda>ri. ri * Num sigma + Num mu) r, g'))"

text \<open>\<open>gamma = np.sum(1 - np.abs(x), axis=1)\<close>.\<close>

definition gamma_rows :: "npfloat matrix \<Rightarrow> npfloat list" where
  "gamma_rows x = map (\<lambda>r. np_sum (map (\<lambda>xi. Num 1 - np_abs xi) r)) (rows x)"

text \<open>
  In \<open>e_s3\<close> the quotient \<open>sigma / d\<close> is a division of two Python numbers, which
  raises for \<open>d = 0\<close>; in \<open>e_s4\<close> \<open>sigma\<close> comes from \<open>np.exp\<close> and the quotient is an
  array division.
\<close>

definition e_s3 :: "npfloat matrix \<Rightarrow> real \<Rightarrow> rng \<Rightarrow> py_error + npfloat list \<times> rng" where
  "e_s3 x phi g =
     (let n = n_rows x; d = n_cols x; nu = 1 - 0.0001 * phi;
          gamma = gamma_rows x; sigma = 0.1 * nu
      in if d = 0 then Inl ZeroDivisionError
         else let mu = map (\<lambda>gi. Num (sigma / real d) * gi) gamma;
                  (r, g') = rand n g
              in bind_err (broadcast1 (+) (map (\<lambda>ri. ri * Num sigma) r) mu) (\<lambda>e.
                 Inr (e, g')))"

definition e_s4 :: "npfloat matrix \<Rightarrow> real \<Rightarrow> rng \<Rightarrow> py_error + npfloat list \<times> rng" where
  "e_s4 x phi g =
     (let n = n_rows x; d = n_cols x; nu = exp (- 0.0005 * phi);
          gamma = gamma_rows x; sigma = 0.1 * nu;
          mu = map (\<lambda>gi. (Num sigma / Num (real d)) * gi) gamma;
          (r, g') = rand n g
      in bind_err (broadcast1 (+) (map (\<lambda>ri. ri * Num sigma) r) mu) (\<lambda>e.
         Inr (e, g')))"

text \<open>
  The last three lines shared by \<open>e_ins1\<close> and \<open>e_ins2\<close>: \<open>e = 10 * d * np.ones(n)\<close>,
  then \<open>e[np.where(r > p)] = 0\<close>.
\<close>

definition instability_error :: "nat \<Rightarrow> real \<Rightarrow> npfloat list \<Rightarrow> npfloat list" where
  "instability_error d p r =
     map (\<lambda>ri. if np_greater ri (Num p) then Num 0 else Num (real (10 * d)) * Num 1) r"

definition e_ins1 :: "npfloat matrix \<Rightarrow> real \<Rightarrow> rng \<Rightarrow> py_error + npfloat list \<times> rng" where
  "e_ins1 x phi g =
     (let n = n_rows x; d = n_cols x; (r, g') = rand n g;
          p = 0.1 * (1 - 0.0001 * phi)
      in Inr (instability_error d p r, g'))"

definition e_ins2 :: "npfloat matrix \<Rightarrow> real \<Rightarrow> rng \<Rightarrow> py_error + npfloat list \<times> rng" where
  "e_ins2 x phi g =
     (let n = n_rows x; d = n_cols x; (r, g') = rand n g;
          p = exp (- 0.001 * phi - 0.1)
      in Inr (instability_error d p r, g'))"

text \<open>
  The functions the module defines, in the order of the file, as values that can be
  stored in a problem instance; \<open>fn_name\<close> is the \<open>__name__\<close> of each.
\<close>

datatype err_fn =
  E_r1 | E_r2 | E_r3 | E_r4 | E_s1 | E_s2 | E_s3 | E_s4 | E_ins1 | E_ins2

definition error_functions :: "err_fn list" where
  "error_functions = [E_r1, E_r2, E_r3, E_r4, E_s1, E_s2, E_s3, E_s4, E_ins1, E_ins2]"

fun fn_name :: "err_fn \<Rightarrow> string" where
  "fn_name E_r1 = ''e_r1''"
| "fn_name E_r2 = ''e_r2''"
| "fn_name E_r3 = ''e_r3''"
| "fn_name E_r4 = ''e_r4''"
| "fn_name E_s1 = ''e_s1''"
| "fn_name E_s2 = ''e_s2''"
| "fn_name E_s3 = ''e_s3''"
| "fn_name E_s4 = ''e_s4''"
| "fn_name E_ins1 = ''e_ins1''"
| "fn_name E_ins2 = ''e_ins2''"

text \<open>The three families, as the comments of the module name them.\<close>

datatype family = Resolution | Stochastic | Instability

fun family_of :: "err_fn \<Rightarrow> family" where
  "family_of E_r1 = Resolution"
| "family_of E_r2 = Resolution"
| "family_of E_r3 = Resolution"
| "family_of E_r4 = Resolution"
| "family_of E_s1 = Stochastic"
| "family_of E_s2 = Stochastic"
| "family_of E_s3 = Stochastic"
| "family_of E_s4 = Stochastic"
| "family_of E_ins1 = Instability"
| "family_of E_ins2 = Instability"

text \<open>
  A call with every argument of the function's signature; \<open>x_b\<close> is used by \<open>e_r4\<close>
  alone.
\<close>

fun apply_err_fn ::
  "err_fn \<Rightarrow> npfloat matrix \<Rightarrow> real \<Rightarrow> npfloat list \<Rightarrow> rng \<Rightarrow> py_error + npfloat list \<times> rng"
  where
  "apply_err_fn E_r1 x phi x_b g = e_r1 x phi g"
| "apply_err_fn E_r2 x phi x_b g = e_r2 x phi g"
| "apply_err_fn E_r3 x phi x_b g = e_r3 x phi g"
| "apply_err_fn E_r4 x phi x_b g = e_r4 x phi x_b g"
| "apply_err_fn E_s1 x phi x_b g = e_s1 x phi g"
| "apply_err_fn E_s2 x phi x_b g = e_s2 x phi g"
| "apply_err_fn E_s3 x phi x_b g = e_s3 x phi g"
| "apply_err_fn E_s4 x phi x_b g = e_s4 x phi g"
| "apply_err_fn E_ins1 x phi x_b g = e_ins1 x phi g"
| "apply_err_fn E_ins2 x phi x_b g = e_ins2 x phi g"

text \<open>
  The call \<open>self.err_fn(x_s, phi)\<close> of \<open>evaluate_MF\<close> passes two arguments; \<open>e_r4\<close>
  needs three, and the call raises a \<open>TypeError\<close>.
\<close>

fun call_err_fn ::
  "err_fn \<Rightarrow> npfloat matrix \<Rightarrow> real \<Rightarrow> rng \<Rightarrow> py_error + npfloat list \<times> rng" where
  "call_err_fn E_r4 x phi g = Inl TypeError"
| "call_err_fn fn x phi g = apply_err_fn fn x phi [] g"

section \<open>The base classes (base.py)\<close>

text \<open>
  A problem instance has its objective count, its variables in the order of the
  dictionary \<open>_vars\<close> (name, lower bound, upper bound) and its method
  \<open>_evaluate_obj\<close>. A multi-fidelity problem also has the error function in use and
  the table \<open>mf_def\<close>: for the name of an error function, the dictionary \<open>Phi\<close> from
  fidelity levels to the parameter of the error function, and the dictionary
  \<open>scale\<close> from objective labels to factors.
\<close>

record problem =
  n_obj :: nat
  vars :: "(string \<times> real \<times> real) list"
  evaluate_obj :: "npfloat matrix \<Rightarrow> py_error + npfloat matrix"

record calibration =
  Phi :: "int \<rightharpoonup> real"
  scale :: "string \<rightharpoonup> real"

record mf_problem = problem +
  err_fn :: err_fn
  mf_def :: "string \<rightharpoonup> calibration"

definition n_var :: "'a problem_scheme \<Rightarrow> nat" where
  "n_var p = length (vars p)"

definition get_bound_arrays :: "'a problem_scheme \<Rightarrow> npfloat list \<times> npfloat list" where
  "get_bound_arrays p =
     (map (\<lambda>(k, v). Num (fst v)) (vars p), map (\<lambda>(k, v). Num (snd v)) (vars p))"

text \<open>
  \<open>evaluate\<close> returns the dictionary \<open>{'F': F}\<close>; a dictionary with this one key is
  modelled by the matrix it holds.
\<close>

definition evaluate :: "'a problem_scheme \<Rightarrow> npfloat matrix \<Rightarrow> py_error + npfloat matrix" where
  "evaluate p x = evaluate_obj p x"

definition set_error_fn :: "'a mf_problem_scheme \<Rightarrow> err_fn \<Rightarrow> 'a mf_problem_scheme" where
  "set_error_fn p fn = p\<lparr>err_fn := fn\<rparr>"

text \<open>
  The scaling of \<open>x\<close> between -1 and 1:
  \<open>x_s = (1 - -1) * (x - x_min)/(x_max - x_min) + -1\<close>.
\<close>

definition scale_x ::
  "npfloat matrix \<Rightarrow> npfloat list \<Rightarrow> npfloat list \<Rightarrow> py_error + npfloat matrix" where
  "scale_x x x_min x_max =
     bind_err (broadcast2 (-) x (as_row x_min)) (\<lambda>t1.
     bind_err (broadcast1 (-) x_max x_min) (\<lambda>width.
     bind_err (broadcast2 (/) (mat_map (\<lambda>a. Num 2 * a) t1) (as_row width)) (\<lambda>t2.
     Inr (mat_map (\<lambda>a. a + Num (- 1)) t2))))"

text \<open>The keyword of objective \<open>f\<close> (counted from 0) and of its fidelity level.\<close>

definition f_kw :: "nat \<Rightarrow> string" where
  "f_kw f = ''f'' @ string_of_nat (f + 1)"

definition Phi_kw :: "nat \<Rightarrow> string" where
  "Phi_kw f = ''Phi_'' @ f_kw f"

text \<open>
  One round of the loop over the objectives, on the result matrix and the random
  source: the column of an objective without a keyword becomes not-a-number, the
  column of an objective with a positive level gets the scaled error added, and any
  other column is left as it is.
\<close>

definition mf_step ::
  "'a mf_problem_scheme \<Rightarrow> nat \<Rightarrow> npfloat matrix \<Rightarrow> (string \<rightharpoonup> int) \<Rightarrow> nat \<Rightarrow>
   npfloat matrix \<times> rng \<Rightarrow> py_error + npfloat matrix \<times> rng" where
  "mf_step p n x_s kwargs f st =
     (case st of (result, g) \<Rightarrow>
      (case kwargs (Phi_kw f) of
         None \<Rightarrow>
           bind_err (assign_col result f (map (\<lambda>one. NaN * one) (replicate n (Num 1))))
             (\<lambda>result'. Inr (result', g))
       | Some level \<Rightarrow>
           if 0 < level then
             (case mf_def p (fn_name (err_fn p)) of
                None \<Rightarrow> Inl (KeyError (KStr (fn_name (err_fn p))))
              | Some entry \<Rightarrow>
             (case scale entry (f_kw f) of
                None \<Rightarrow> Inl (KeyError (KStr (f_kw f)))
              | Some sc \<Rightarrow>
             (case Phi entry level of
                None \<Rightarrow> Inl (KeyError (KInt level))
              | Some phi \<Rightarrow>
                  bind_err (call_err_fn (err_fn p) x_s phi g) (\<lambda>(e, g').
                  let err = map (\<lambda>ei. Num sc * ei) e in
                  bind_err (column result f) (\<lambda>col.
                  bind_err (broadcast1 (+) col err) (\<lambda>v.
                  bind_err (assign_col result f v) (\<lambda>result'.
                  Inr (result', g'))))))))
           else Inr (result, g)))"

fun mf_loop ::
  "'a mf_problem_scheme \<Rightarrow> nat \<Rightarrow> npfloat matrix \<Rightarrow> (string \<rightharpoonup> int) \<Rightarrow> nat list \<Rightarrow>
   npfloat matrix \<times> rng \<Rightarrow> py_error + npfloat matrix \<times> rng" where
  "mf_loop p n x_s kwargs [] st = Inr st"
| "mf_loop p n x_s kwargs (f # fs) st =
     bind_err (mf_step p n x_s kwargs f st) (mf_loop p n x_s kwargs fs)"

definition evaluate_MF ::
  "'a mf_problem_scheme \<Rightarrow> npfloat matrix \<Rightarrow> (string \<rightharpoonup> int) \<Rightarrow> rng \<Rightarrow>
   py_error + npfloat matrix \<times> rng" where
  "evaluate_MF p x kwargs g =
     (let n = n_rows x in
      bind_err (evaluate p x) (\<lambda>result.
      case get_bound_arrays p of (x_min, x_max) \<Rightarrow>
      bind_err (scale_x x x_min x_max) (\<lambda>x_s.
      mf_loop p n x_s kwargs [0..<n_obj p] (result, g))))"

section \<open>The four bar truss problem (RE_problems.py)\<close>

definition RE2_4_1_F :: real where "RE2_4_1_F = 10"
definition RE2_4_1_E :: real where "RE2_4_1_E = 200000"
definition RE2_4_1_L :: real where "RE2_4_1_L = 200"
definition RE2_4_1_sigma :: real where "RE2_4_1_sigma = 10"
definition RE2_4_1_a :: real where "RE2_4_1_a = RE2_4_1_F / RE2_4_1_sigma"

definition RE2_4_1_vars :: "(string \<times> real \<times> real) list" where
  "RE2_4_1_vars =
     [(''x1'', RE2_4_1_a, 3 * RE2_4_1_a),
      (''x2'', sqrt (2 * RE2_4_1_a), 3 * RE2_4_1_a),
      (''x3'', sqrt (2 * RE2_4_1_a), 3 * RE2_4_1_a),
      (''x4'', RE2_4_1_a, 3 * RE2_4_1_a)]"

text \<open>
  The four columns are read first, each read raising when the batch has no such
  column; the two objectives are then computed row by row.
\<close>

definition RE2_4_1_evaluate_obj :: "npfloat matrix \<Rightarrow> py_error + npfloat matrix" where
  "RE2_4_1_evaluate_obj x =
     bind_err (column x 0) (\<lambda>x1.
     bind_err (column x 1) (\<lambda>x2.
     bind_err (column x 2) (\<lambda>x3.
     bind_err (column x 3) (\<lambda>x4.
     let f1 = map (\<lambda>i. Num RE2_4_1_L *
                (Num 2 * x1 ! i + np_sqrt (Num 2 * x2 ! i) + np_sqrt (x3 ! i) + x4 ! i))
                [0..<n_rows x];
         f2 = map (\<lambda>i. Num (RE2_4_1_F * RE2_4_1_L / RE2_4_1_E) *
                ((Num 2 / x1 ! i) + (Num (2 * sqrt 2) / x2 ! i)
                 - (Num (2 * sqrt 2) / x3 ! i) + (Num 2 / x4 ! i)))
                [0..<n_rows x]
     in hstack (as_column f1) (as_column f2)))))"

definition RE2_4_1 :: problem where
  "RE2_4_1 = \<lparr>n_obj = 2, vars = RE2_4_1_vars, evaluate_obj = RE2_4_1_evaluate_obj\<rparr>"

section \<open>The scalable problems (DTLZ_problems.py)\<close>

text \<open>
  An instance is made from the objective count \<open>n_obj\<close>, the count \<open>k\<close> of the
  variables passed to \<open>g\<close> and the exponent \<open>beta\<close>, a natural number here (1 unless
  the caller chooses another). Every variable has the bounds 0 and 1.
\<close>

definition DTLZ_vars :: "nat \<Rightarrow> nat \<Rightarrow> (string \<times> real \<times> real) list" where
  "DTLZ_vars n_obj' k = map (\<lambda>n. (''x'' @ string_of_nat (n + 1), 0, 1)) [0..<n_obj' + k - 1]"

definition DTLZ_g_row :: "nat \<Rightarrow> npfloat list \<Rightarrow> npfloat" where
  "DTLZ_g_row d r =
     Num (real d) + np_sum (map (\<lambda>a. np_power (a - Num 0.5) 2
                                     - np_cos (Num (20 * pi) * (a - Num 0.5))) r)"

definition DTLZ_g :: "npfloat matrix \<Rightarrow> npfloat matrix" where
  "DTLZ_g x_m = as_column (map (DTLZ_g_row (n_cols x_m)) (rows x_m))"

text \<open>\<open>np.prod(np.cos(m * np.pi / 2), axis=1)\<close>.\<close>

definition prod_cos :: "npfloat matrix \<Rightarrow> npfloat list" where
  "prod_cos m = map (\<lambda>r. np_prod (map (\<lambda>a. np_cos (a * Num pi / Num 2)) r)) (rows m)"

fun DTLZ_s_loop ::
  "nat \<Rightarrow> npfloat matrix \<Rightarrow> nat list \<Rightarrow> npfloat matrix \<Rightarrow> py_error + npfloat matrix" where
  "DTLZ_s_loop beta x_pos [] S = Inr S"
| "DTLZ_s_loop beta x_pos (i # is) S =
     (let left = prod_cos (cols_to x_pos (int i)) in
      bind_err (column x_pos i) (\<lambda>ci.
      bind_err (broadcast1 (*) left (map (\<lambda>a. np_sin (a * Num pi / Num 2)) ci)) (\<lambda>t.
      let s_tmp = map (\<lambda>a. np_power a beta) t in
      bind_err (hstack S (as_column s_tmp)) (\<lambda>S'.
      DTLZ_s_loop beta x_pos is S'))))"

text \<open>The loop runs over \<open>range(n_obj - 2, -1, -1)\<close>.\<close>

definition DTLZ_s :: "nat \<Rightarrow> nat \<Rightarrow> npfloat matrix \<Rightarrow> py_error + npfloat matrix" where
  "DTLZ_s beta n_obj' x_pos =
     DTLZ_s_loop beta x_pos (rev [0..<n_obj' - 1])
       (as_column (map (\<lambda>a. np_power a beta) (prod_cos x_pos)))"

definition DTLZ2_evaluate_obj :: "nat \<Rightarrow> nat \<Rightarrow> npfloat matrix \<Rightarrow> py_error + npfloat matrix" where
  "DTLZ2_evaluate_obj n_obj' beta x =
     (let x_pos = cols_to x (int n_obj' - 1); x_m = cols_from x (int n_obj' - 1);
          G_xm = DTLZ_g x_m
      in bind_err (DTLZ_s beta n_obj' x_pos) (\<lambda>S_xpos.
         broadcast2 (*) (mat_map (\<lambda>a. Num 1 + a) G_xm) S_xpos))"

definition InvertedDTLZ2_evaluate_obj ::
  "nat \<Rightarrow> nat \<Rightarrow> npfloat matrix \<Rightarrow> py_error + npfloat matrix" where
  "InvertedDTLZ2_evaluate_obj n_obj' beta x =
     (let x_pos = cols_to x (int n_obj' - 1); x_m = cols_from x (int n_obj' - 1);
          G_xm = DTLZ_g x_m
      in bind_err (DTLZ_s beta n_obj' x_pos) (\<lambda>S_xpos.
         broadcast2 (*) (mat_map (\<lambda>a. Num 1 + a) G_xm)
                        (mat_map (\<lambda>a. Num 1 - a) S_xpos)))"

definition DTLZ2 :: "nat \<Rightarrow> nat \<Rightarrow> nat \<Rightarrow> problem" where
  "DTLZ2 n_obj' k beta =
     \<lparr>n_obj = n_obj', vars = DTLZ_vars n_obj' k,
      evaluate_obj = DTLZ2_evaluate_obj n_obj' beta\<rparr>"

definition InvertedDTLZ2 :: "nat \<Rightarrow> nat \<Rightarrow> nat \<Rightarrow> problem" where
  "InvertedDTLZ2 n_obj' k beta =
     \<lparr>n_obj = n_obj', vars = DTLZ_vars n_obj' k,
      evaluate_obj = InvertedDTLZ2_evaluate_obj n_obj' beta\<rparr>"

section \<open>The multi-fidelity problems (MOMF_problems.py)\<close>

definition calibration_entry ::
  "(int \<times> real) list \<Rightarrow> (string \<times> real) list \<Rightarrow> calibration" where
  "calibration_entry levels factors = \<lparr>Phi = map_of levels, scale = map_of factors\<rparr>"

definition MOMF2_4_1a_mf_def :: "string \<rightharpoonup> calibration" where
  "MOMF2_4_1a_mf_def = map_of
     [(''e_r1'', calibration_entry [(1, 8436), (2, 7064), (3, 5000)]
                   [(''f1'', 109.62), (''f2'', 0.16447)]),
      (''e_r2'', calibration_entry [(1, 9178), (2, 6893), (3, 5000)]
                   [(''f1'', 200.85), (''f2'', 0.30882)]),
      (''e_r3'', calibration_entry [(1, 8266), (2, 6583), (3, 5000)]
                   [(''f1'', 131.17), (''f2'', 0.21674)]),
      (''e_s1'', calibration_entry [(1, 8697), (2, 6853), (3, 5000)]
                   [(''f1'', 5385.6), (''f2'', 7.2515)]),
      (''e_s2'', calibration_entry [(1, 7715), (2, 5891), (3, 5000)]
                   [(''f1'', 32636), (''f2'', 44.158)]),
      (''e_s3'', calibration_entry [(1, 8697), (2, 7014), (3, 5000)]
                   [(''f1'', 6928.7), (''f2'', 5.6141)]),
      (''e_s4'', calibration_entry [(1, 7605), (2, 6102), (3, 5000)]
                   [(''f1'', 42286), (''f2'', 34.426)])]"

text \<open>The error function is \<open>e_r1\<close> unless the caller passes another.\<close>

definition MOMF2_4_1a :: "err_fn \<Rightarrow> mf_problem" where
  "MOMF2_4_1a fn =
     \<lparr>n_obj = 2, vars = RE2_4_1_vars, evaluate_obj = RE2_4_1_evaluate_obj,
      err_fn = fn, mf_def = MOMF2_4_1a_mf_def\<rparr>"

definition MOMF3_7_1_mf_def :: "string \<rightharpoonup> calibration" where
  "MOMF3_7_1_mf_def = map_of
     [(''e_r1'', calibration_entry [(1, 9168), (2, 8356), (3, 6993), (4, 5000)]
                   [(''f1'', 0.97701), (''f2'', 1.03), (''f3'', 1.3075)]),
      (''e_r2'', calibration_entry [(1, 9989), (2, 9659), (3, 6593), (4, 5000)]
                   [(''f1'', 1.7128), (''f2'', 1.8116), (''f3'', 2.3048)]),
      (''e_r3'', calibration_entry [(1, 8647), (2, 8476), (3, 6733), (4, 5000)]
                   [(''f1'', 1.3973), (''f2'', 1.3325), (''f3'', 1.5736)]),
      (''e_s1'', calibration_entry [(1, 9318), (2, 8567), (3, 6903), (4, 5000)]
                   [(''f1'', 65.451), (''f2'', 65.64), (''f3'', 80.547)]),
      (''e_s2'', calibration_entry [(1, 8967), (2, 7505), (3, 5961), (4, 5000)]
                   [(''f1'', 398.6), (''f2'', 399.42), (''f3'', 492.23)]),
      (''e_s3'', calibration_entry [(1, 9599), (2, 9148), (3, 8116), (4, 5000)]
                   [(''f1'', 106.4), (''f2'', 106.75), (''f3'', 125.02)]),
      (''e_s4'', calibration_entry [(1, 9058), (2, 7565), (3, 5981), (4, 5000)]
                   [(''f1'', 398.85), (''f2'', 398.13), (''f3'', 465.18)])]"

text \<open>Without arguments the instance is \<open>MOMF3_7_1 E_r1 3 5 1\<close>.\<close>

definition MOMF3_7_1 :: "err_fn \<Rightarrow> nat \<Rightarrow> nat \<Rightarrow> nat \<Rightarrow> mf_problem" where
  "MOMF3_7_1 fn n_obj' k beta =
     \<lparr>n_obj = n_obj', vars = DTLZ_vars n_obj' k,
      evaluate_obj = DTLZ2_evaluate_obj n_obj' beta,
      err_fn = fn, mf_def = MOMF3_7_1_mf_def\<rparr>"

section \<open>Example inputs\<close>

text \<open>
  One sample of the four bar truss problem inside its bounds, and a random source
  whose every draw is one half.
\<close>

definition example_batch :: "npfloat matrix" where
  "example_batch = \<lparr>n_cols = 4, rows = [[Num 1, Num 2, Num 2, Num 1]]\<rparr>"

definition example_rng :: rng where
  "example_rng = (\<lambda>i. 1 / 2)"

text \<open>
  A batch of the four bar truss problem with a fifth column, and a batch of one
  column.
\<close>

definition wide_batch :: "npfloat matrix" where
  "wide_batch = \<lparr>n_cols = 5, rows = [[Num 1, Num 2, Num 2, Num 1, Num 9]]\<rparr>"

definition narrow_batch :: "npfloat matrix" where
  "narrow_batch = \<lparr>n_cols = 1, rows = [[Num 0]]\<rparr>"

text \<open>
  A sample of the scalable problem with two objectives and one variable for \<open>g\<close>.
\<close>

definition dtlz_batch :: "npfloat matrix" where
  "dtlz_batch = \<lparr>n_cols = 2, rows = [[Num 0, Num (1 / 2)]]\<rparr>"

section \<open>Properties of the array operations\<close>

lemma bind_err_Inl [simp]: "bind_err (Inl e) k = Inl e"
  by (simp add: bind_err_def)

lemma bind_err_Inr [simp]: "bind_err (Inr a) k = k a"
  by (simp add: bind_err_def)

lemma bind_err_eq_Inr: "bind_err m k = Inr b \<longleftrightarrow> (\<exists>a. m = Inr a \<and> k a = Inr b)"
  by (cases m) simp_all

lemma map_nth_update_other:
  "length v = length rs \<Longrightarrow> j' \<noteq> j \<Longrightarrow>
   map ((\<lambda>r. r ! j') \<circ> (\<lambda>(r, a). r[j := a])) (zip rs v) = map (\<lambda>r. r ! j') rs"
  by (induction rs v rule: list_induct2') simp_all

lemma map_nth_update_same:
  "length v = length rs \<Longrightarrow> \<forall>r \<in> set rs. j < length r \<Longrightarrow>
   map ((\<lambda>r. r ! j) \<circ> (\<lambda>(r, a). r[j := a])) (zip rs v) = v"
  by (induction rs v rule: list_induct2') simp_all

lemma map_nth_update_const:
  "\<forall>r \<in> set rs. j < length r \<Longrightarrow>
   map ((\<lambda>r. r ! j) \<circ> (\<lambda>r. r[j := a])) rs = replicate (length rs) a"
  by (induction rs) simp_all

lemma map_nth_update_const_other:
  "j' \<noteq> j \<Longrightarrow> map ((\<lambda>r. r ! j') \<circ> (\<lambda>r. r[j := a])) rs = map (\<lambda>r. r ! j') rs"
  by (induction rs) simp_all

lemma assign_col_shape:
  assumes "assign_col m j v = Inr m'"
  shows "n_cols m' = n_cols m" and "n_rows m' = n_rows m" and "j < n_cols m"
  using assms by (auto simp: assign_col_def n_rows_def split: if_splits)

lemma assign_col_wf:
  assumes "assign_col m j v = Inr m'" and "wf_matrix m"
  shows "wf_matrix m'"
  using assms
  by (auto simp: assign_col_def wf_matrix_def n_rows_def list_all_iff
        split: if_splits) (meson set_zip_leftD)

lemma assign_col_other:
  assumes "assign_col m j v = Inr m'" and "j' \<noteq> j"
  shows "column m' j' = column m j'"
  using assms
  by (auto simp: assign_col_def column_def n_rows_def map_nth_update_other
        map_nth_update_const_other split: if_splits)

lemma assign_col_same:
  assumes "assign_col m j v = Inr m'" and "wf_matrix m"
  shows "column m' j =
           Inr (if length v = n_rows m then v else replicate (n_rows m) (v ! 0))"
  using assms
  by (auto simp: assign_col_def column_def n_rows_def wf_matrix_def list_all_iff
        map_nth_update_same map_nth_update_const split: if_splits)

section \<open>Properties of the loop of \<open>evaluate_MF\<close>\<close>

lemma assign_col_length:
  assumes "assign_col m j v = Inr m'"
  shows "length v = n_rows m \<or> length v = 1"
  using assms by (auto simp: assign_col_def split: if_splits)

lemma mf_step_cases:
  assumes "mf_step p n x_s kwargs f (R, g) = Inr (R', g')"
  shows "R' = R \<or> (\<exists>v. assign_col R f v = Inr R')"
  using assms
  by (auto simp: mf_step_def bind_err_eq_Inr split: option.splits if_splits prod.splits)

lemma mf_step_frame:
  assumes "mf_step p n x_s kwargs f (R, g) = Inr (R', g')"
  shows "n_cols R' = n_cols R \<and> n_rows R' = n_rows R \<and>
         (wf_matrix R \<longrightarrow> wf_matrix R') \<and>
         (f' \<noteq> f \<longrightarrow> column R' f' = column R f')"
  using mf_step_cases [OF assms]
  by (auto simp: assign_col_shape assign_col_wf assign_col_other)

lemma mf_loop_frame:
  "mf_loop p n x_s kwargs fs (R, g) = Inr (R', g') \<Longrightarrow>
   n_cols R' = n_cols R \<and> n_rows R' = n_rows R \<and> (wf_matrix R \<longrightarrow> wf_matrix R') \<and>
   (f' \<notin> set fs \<longrightarrow> column R' f' = column R f')"
proof (induction fs arbitrary: R g)
  case Nil
  then show ?case by simp
next
  case (Cons f fs)
  from Cons.prems obtain R1 g1 where
    step: "mf_step p n x_s kwargs f (R, g) = Inr (R1, g1)" and
    rest: "mf_loop p n x_s kwargs fs (R1, g1) = Inr (R', g')"
    by (auto simp: bind_err_eq_Inr)
  from Cons.IH [OF rest] mf_step_frame [OF step, of f'] show ?case
    by auto
qed

lemma mf_loop_append:
  "mf_loop p n x_s kwargs (as @ bs) st =
   bind_err (mf_loop p n x_s kwargs as st) (mf_loop p n x_s kwargs bs)"
proof (induction as arbitrary: st)
  case Nil
  then show ?case by simp
next
  case (Cons a as)
  then show ?case by (cases "mf_step p n x_s kwargs a st") simp_all
qed

lemma upt_split: "f < n \<Longrightarrow> [0..<n] = [0..<f] @ f # [Suc f..<n]"
  by (metis less_imp_le_nat upt_add_eq_append upt_conv_Cons le0 le_add_diff_inverse)

lemma mf_loop_split:
  assumes "mf_loop p n x_s kwargs [0..<m] (HF, g) = Inr (R, g')" and "f < m"
  obtains R1 g1 R2 g2 where
    "mf_loop p n x_s kwargs [0..<f] (HF, g) = Inr (R1, g1)"
    "mf_step p n x_s kwargs f (R1, g1) = Inr (R2, g2)"
    "mf_loop p n x_s kwargs [Suc f..<m] (R2, g2) = Inr (R, g')"
  using assms
  by (auto simp: upt_split [of f m] mf_loop_append bind_err_eq_Inr)

lemma evaluate_MF_Inr:
  "evaluate_MF p x kwargs g = Inr (R, g') \<longleftrightarrow>
   (\<exists>HF x_s. evaluate p x = Inr HF \<and>
      scale_x x (fst (get_bound_arrays p)) (snd (get_bound_arrays p)) = Inr x_s \<and>
      mf_loop p (n_rows x) x_s kwargs [0..<n_obj p] (HF, g) = Inr (R, g'))"
  by (simp add: evaluate_MF_def bind_err_eq_Inr Let_def case_prod_beta)

section \<open>The example evaluated\<close>

lemmas array_defs = column_def assign_col_def n_rows_def hstack_def as_column_def
  as_row_def broadcast2_def broadcast1_def bdim_def bget_def mat_map_def minus_npfloat_def

lemma f_kw_simps: "f_kw 0 = ''f1''" "f_kw 1 = ''f2''" "f_kw (Suc 0) = ''f2''"
  by (simp_all add: f_kw_def string_of_nat.simps)

lemma Phi_kw_simps: "Phi_kw 0 = ''Phi_f1''" "Phi_kw 1 = ''Phi_f2''" "Phi_kw (Suc 0) = ''Phi_f2''"
  by (simp_all add: Phi_kw_def f_kw_simps)

lemma RE2_4_1_example:
  "RE2_4_1_evaluate_obj example_batch =
     Inr \<lparr>n_cols = 2, rows = [[Num (1000 + 200 * sqrt 2), Num (1 / 25)]]\<rparr>"
  by (simp add: RE2_4_1_evaluate_obj_def example_batch_def array_defs
        RE2_4_1_F_def RE2_4_1_L_def RE2_4_1_E_def)

lemma sqrt2_less_3: "sqrt 2 < 3"
  by (rule real_less_lsqrt) simp_all

lemma sqrt2_ne_3: "sqrt 2 \<noteq> 3"
  using sqrt2_less_3 by simp

lemma MOMF2_4_1a_example_scale:
  "scale_x example_batch (fst (get_bound_arrays (MOMF2_4_1a fn)))
     (snd (get_bound_arrays (MOMF2_4_1a fn))) =
   Inr \<lparr>n_cols = 4,
        rows = [[Num (- 1), Num (2 * (2 - sqrt 2) / (3 - sqrt 2) - 1),
                 Num (2 * (2 - sqrt 2) / (3 - sqrt 2) - 1), Num (- 1)]]\<rparr>"
  by (simp add: scale_x_def get_bound_arrays_def MOMF2_4_1a_def RE2_4_1_vars_def
        RE2_4_1_a_def RE2_4_1_F_def RE2_4_1_sigma_def example_batch_def array_defs
        upt_rec sqrt2_ne_3)

lemma MOMF2_4_1a_example_MF:
  "evaluate_MF (MOMF2_4_1a E_s1) example_batch [''Phi_f1'' \<mapsto> 1] example_rng =
     Inr (\<lparr>n_cols = 2, rows = [[Num (64692949 / 62500 + 200 * sqrt 2), NaN]]\<rparr>,
          example_rng)"
  apply (simp add: evaluate_MF_def evaluate_def case_prod_beta MOMF2_4_1a_example_scale)
  apply (simp add: MOMF2_4_1a_def RE2_4_1_example)
  apply (simp add: mf_step_def Phi_kw_simps f_kw_simps upt_rec MOMF2_4_1a_mf_def_def calibration_entry_def
      e_s1_def rand_def example_rng_def example_batch_def array_defs)
  done

section \<open>Properties of broadcasting and of the scaling\<close>

lemma bdim_one [simp]: "bdim n (Suc 0) = Some n"
  by (simp add: bdim_def)

lemma bdim_same [simp]: "bdim n n = Some n"
  by (simp add: bdim_def)

lemma bget_nth: "i < n_rows m \<Longrightarrow> j < n_cols m \<Longrightarrow> bget m i j = rows m ! i ! j"
  by (auto simp: bget_def)

lemma bget_as_row: "j < length v \<Longrightarrow> bget (as_row v) i j = v ! j"
  by (auto simp: bget_def as_row_def n_rows_def)

lemma broadcast2_row:
  "n_cols m = length v \<Longrightarrow>
   broadcast2 h m (as_row v) =
     Inr \<lparr>n_cols = length v,
          rows = map (\<lambda>i. map (\<lambda>j. h (bget m i j) (v ! j)) [0..<length v]) [0..<n_rows m]\<rparr>"
  by (simp add: broadcast2_def as_row_def n_rows_def bget_as_row [unfolded as_row_def]
        cong: map_cong)

lemma broadcast2_row_mismatch:
  "n_cols m \<noteq> length v \<Longrightarrow> n_cols m \<noteq> 1 \<Longrightarrow> length v \<noteq> 1 \<Longrightarrow>
   broadcast2 h m (as_row v) = Inl ValueError"
  by (simp add: broadcast2_def as_row_def bdim_def)

lemma broadcast2_row_shape:
  "broadcast2 h m (as_row v) = Inr t \<Longrightarrow> n_rows t = n_rows m"
  by (auto simp: broadcast2_def as_row_def n_rows_def split: option.splits)

lemma scale_x_rows:
  "scale_x x x_min x_max = Inr x_s \<Longrightarrow> n_rows x_s = n_rows x"
  by (auto simp: scale_x_def bind_err_eq_Inr mat_map_def n_rows_def
        dest!: broadcast2_row_shape [unfolded n_rows_def])

lemma scale_x_entries:
  assumes "n_cols x = length x_min" and "length x_max = length x_min"
  shows "scale_x x x_min x_max =
     Inr \<lparr>n_cols = length x_min,
          rows = map (\<lambda>i. map (\<lambda>j. Num 2 * (bget x i j - x_min ! j) / (x_max ! j - x_min ! j)
                                     + Num (- 1)) [0..<length x_min]) [0..<n_rows x]\<rparr>"
  using assms
  by (simp add: scale_x_def broadcast2_row broadcast1_def mat_map_def n_rows_def bget_def
        cong: map_cong)

lemma get_bound_arrays_length:
  "length (fst (get_bound_arrays p)) = n_var p" "length (snd (get_bound_arrays p)) = n_var p"
  by (simp_all add: get_bound_arrays_def n_var_def)

lemma get_bound_arrays_nth:
  assumes "j < n_var p" and "vars p ! j = (name, lower, upper)"
  shows "fst (get_bound_arrays p) ! j = Num lower" and "snd (get_bound_arrays p) ! j = Num upper"
  using assms by (simp_all add: get_bound_arrays_def n_var_def)

lemma scale_x_defined:
  assumes "n_cols x = n_var p"
  shows "\<exists>x_s. scale_x x (fst (get_bound_arrays p)) (snd (get_bound_arrays p)) = Inr x_s"
  using assms by (simp add: scale_x_entries get_bound_arrays_length)

lemma scale_x_mismatch:
  assumes "n_cols x \<noteq> n_var p" and "n_cols x \<noteq> 1" and "n_var p \<noteq> 1"
  shows "scale_x x (fst (get_bound_arrays p)) (snd (get_bound_arrays p)) = Inl ValueError"
  using assms
  by (simp add: scale_x_def broadcast2_row_mismatch get_bound_arrays_length)

section \<open>Properties of the error functions\<close>

lemma n_rows_mat_map [simp]: "n_rows (mat_map h m) = n_rows m"
  by (simp add: mat_map_def n_rows_def)

lemma broadcast2_same_rows:
  "broadcast2 h a b = Inr t \<Longrightarrow> n_rows a = n_rows b \<Longrightarrow> n_rows t = n_rows a"
  by (auto simp: broadcast2_def n_rows_def split: option.splits)

lemma length_rand [simp]: "length (fst (rand n g)) = n"
  by (simp add: rand_def)

lemma length_resolution_error [simp]: "length (resolution_error theta x) = n_rows x"
  by (simp add: resolution_error_def n_rows_def)

lemma length_gamma_rows [simp]: "length (gamma_rows x) = n_rows x"
  by (simp add: gamma_rows_def n_rows_def)

lemma length_instability_error [simp]: "length (instability_error d p r) = length r"
  by (simp add: instability_error_def)

lemma broadcast1_same_length:
  "length u = length v \<Longrightarrow> broadcast1 h u v = Inr (map2 h u v)"
  by (simp add: broadcast1_def)

lemma e_r4_length:
  assumes "e_r4 x phi x_b g = Inr (e, g')"
  shows "length e = n_rows x"
proof -
  from assms obtain diff a t where
    d: "broadcast2 (\<lambda>xi bi. xi - bi) x (as_row x_b) = Inr diff" and
    a: "broadcast2 (*) (mat_map (\<lambda>_. Num (1 - 0.0001 * phi)) x)
          (mat_map (\<lambda>t. Num 1 - np_abs t) diff) = Inr a" and
    t: "broadcast2 (*) a
          (mat_map (\<lambda>xi. np_cos (Num (10 * pi * (1 - 0.0001 * phi)) * xi
             + Num (0.5 * pi * (1 - 0.0001 * phi)) + Num pi)) x) = Inr t" and
    e: "e = map np_sum (rows t)"
    by (auto simp: e_r4_def Let_def bind_err_eq_Inr)
  from d have "n_rows diff = n_rows x"
    by (rule broadcast2_row_shape)
  with a have "n_rows a = n_rows x"
    by (simp add: broadcast2_same_rows)
  with t have "n_rows t = n_rows x"
    by (simp add: broadcast2_same_rows)
  with e show ?thesis
    by (simp add: n_rows_def)
qed

lemma apply_err_fn_length:
  assumes "apply_err_fn fn x phi x_b g = Inr (e, g')"
  shows "length e = n_rows x"
proof (cases fn)
  case E_r4
  with assms show ?thesis by (simp add: e_r4_length)
next
  case E_s3
  with assms show ?thesis
    by (auto simp: e_s3_def Let_def case_prod_beta broadcast1_same_length
          split: if_splits)
next
  case E_s4
  with assms show ?thesis
    by (auto simp: e_s4_def Let_def case_prod_beta broadcast1_same_length)
qed (use assms in \<open>auto simp: e_r1_def e_r2_def e_r3_def e_s1_def e_s2_def e_ins1_def
       e_ins2_def Let_def case_prod_beta\<close>)

lemma call_err_fn_length:
  assumes "call_err_fn fn x phi g = Inr (e, g')"
  shows "length e = n_rows x"
  using assms apply_err_fn_length [of fn x phi "[]" g e g'] by (cases fn) simp_all

section \<open>More of the example\<close>

lemma MOMF2_4_1a_evaluate_example:
  "evaluate (MOMF2_4_1a fn) example_batch =
     Inr \<lparr>n_cols = 2, rows = [[Num (1000 + 200 * sqrt 2), Num (1 / 25)]]\<rparr>"
  by (simp add: evaluate_def MOMF2_4_1a_def RE2_4_1_example)

lemma MOMF2_4_1a_mf_def_e_s1:
  "mf_def (MOMF2_4_1a E_s1) (fn_name (err_fn (MOMF2_4_1a E_s1))) =
     Some (calibration_entry [(1, 8697), (2, 6853), (3, 5000)]
             [(''f1'', 5385.6), (''f2'', 7.2515)])"
  by (simp add: MOMF2_4_1a_def MOMF2_4_1a_mf_def_def)



lemma e_ins1_example:
  "e_ins1 example_batch 5000 example_rng = Inr ([Num 0], example_rng)"
  by (simp add: e_ins1_def rand_def example_batch_def example_rng_def n_rows_def
        instability_error_def)

lemma e_ins2_example:
  "e_ins2 example_batch (- 100) (\<lambda>i. 0) = Inr ([Num 40], \<lambda>i. 0)"
  by (simp add: e_ins2_def rand_def example_batch_def n_rows_def
        instability_error_def)



lemma RE2_4_1_wide:
  "evaluate RE2_4_1 wide_batch =
     Inr \<lparr>n_cols = 2, rows = [[Num (1000 + 200 * sqrt 2), Num (1 / 25)]]\<rparr>"
  by (simp add: evaluate_def RE2_4_1_def RE2_4_1_evaluate_obj_def wide_batch_def array_defs
        RE2_4_1_F_def RE2_4_1_L_def RE2_4_1_E_def)






section \<open>Claims about \<open>evaluate_MF\<close>\<close>

text \<open>
  Claim C2. When \<open>evaluate_MF\<close> returns and objective \<open>f\<close> has no entry in the
  fidelity request, every row of column \<open>f\<close> of the returned matrix is
  not-a-number, whatever the batch and whatever the high-fidelity values were.
  (Every array is rectangular; the model states it as \<open>wf_matrix\<close>.)
\<close>

theorem omitted_objective_is_nan:
  assumes "evaluate_MF p x kwargs g = Inr (R, g')"
    and "evaluate p x = Inr HF" and "wf_matrix HF"
    and "f < n_obj p" and "kwargs (Phi_kw f) = None"
  shows "column R f = Inr (replicate (n_rows R) NaN)"
proof -
  from assms(1,2) obtain x_s where
    loop: "mf_loop p (n_rows x) x_s kwargs [0..<n_obj p] (HF, g) = Inr (R, g')"
    by (auto simp: evaluate_MF_Inr)
  from loop \<open>f < n_obj p\<close> obtain R1 g1 R2 g2 where
    pre: "mf_loop p (n_rows x) x_s kwargs [0..<f] (HF, g) = Inr (R1, g1)" and
    step: "mf_step p (n_rows x) x_s kwargs f (R1, g1) = Inr (R2, g2)" and
    post: "mf_loop p (n_rows x) x_s kwargs [Suc f..<n_obj p] (R2, g2) = Inr (R, g')"
    by (rule mf_loop_split)
  from mf_loop_frame [OF pre] \<open>wf_matrix HF\<close> have wf1: "wf_matrix R1"
    by simp
  from step \<open>kwargs (Phi_kw f) = None\<close>
  have asg: "assign_col R1 f (map (\<lambda>one. NaN * one) (replicate (n_rows x) (Num 1))) = Inr R2"
    by (auto simp: mf_step_def bind_err_eq_Inr)
  have "column R2 f = Inr (replicate (n_rows R1) NaN)"
    using assign_col_same [OF asg wf1] assign_col_length [OF asg]
    by (auto simp: map_replicate_const)
  moreover have "n_rows R2 = n_rows R1"
    using assign_col_shape [OF asg] by simp
  moreover from mf_loop_frame [OF post, of f]
  have "column R f = column R2 f" and "n_rows R = n_rows R2"
    by simp_all
  ultimately show ?thesis by simp
qed

theorem omitted_objective_is_nan_witness:
  "evaluate_MF (MOMF2_4_1a E_s1) example_batch [''Phi_f1'' \<mapsto> 1] example_rng =
     Inr (\<lparr>n_cols = 2, rows = [[Num (64692949 / 62500 + 200 * sqrt 2), NaN]]\<rparr>,
          example_rng) \<and>
   1 < n_obj (MOMF2_4_1a E_s1) \<and> [''Phi_f1'' \<mapsto> (1::int)] (Phi_kw 1) = None \<and>
   column \<lparr>n_cols = 2, rows = [[Num (64692949 / 62500 + 200 * sqrt 2), NaN]]\<rparr> 1 =
     Inr [NaN]"
proof -
  have h1: "evaluate_MF (MOMF2_4_1a E_s1) example_batch [''Phi_f1'' \<mapsto> 1] example_rng =
     Inr (\<lparr>n_cols = 2, rows = [[Num (64692949 / 62500 + 200 * sqrt 2), NaN]]\<rparr>,
          example_rng)"
    by (rule MOMF2_4_1a_example_MF)
  have h2: "evaluate (MOMF2_4_1a E_s1) example_batch =
     Inr \<lparr>n_cols = 2, rows = [[Num (1000 + 200 * sqrt 2), Num (1 / 25)]]\<rparr>"
    by (simp add: evaluate_def MOMF2_4_1a_def RE2_4_1_example)
  have h3: "wf_matrix \<lparr>n_cols = 2, rows = [[Num (1000 + 200 * sqrt 2), Num (1 / 25)]]\<rparr>"
    by (simp add: wf_matrix_def)
  have h4: "1 < n_obj (MOMF2_4_1a E_s1)"
    by (simp add: MOMF2_4_1a_def)
  have h5: "[''Phi_f1'' \<mapsto> (1::int)] (Phi_kw 1) = None"
    by (simp add: Phi_kw_simps)
  from omitted_objective_is_nan [OF h1 h2 h3 h4 h5] h1 h4 h5 show ?thesis
    by (simp add: n_rows_def)
qed

text \<open>
  Claim C1. When \<open>evaluate_MF\<close> returns, objective \<open>f\<close> was requested at a
  positive level and the level is in the table of the error function in use, column
  \<open>f\<close> of the result is column \<open>f\<close> of the matrix of \<open>evaluate\<close> plus, entry by
  entry, the factor of \<open>f\<close> times the error function applied to the scaled batch
  and the parameter of the level. The error function is called with the random
  source as the rounds of the objectives before \<open>f\<close> left it. The objective
  evaluator returns one row per sample.
\<close>

theorem positive_level_adds_scaled_error:
  assumes "evaluate_MF p x kwargs g = Inr (R, g')"
    and "evaluate p x = Inr HF" and "wf_matrix HF" and "n_rows HF = n_rows x"
    and "f < n_obj p" and "kwargs (Phi_kw f) = Some level" and "0 < level"
    and "mf_def p (fn_name (err_fn p)) = Some entry" and "Phi entry level = Some phi"
  shows "\<exists>sc x_s R1 g1 e g2 col.
           scale entry (f_kw f) = Some sc \<and>
           scale_x x (fst (get_bound_arrays p)) (snd (get_bound_arrays p)) = Inr x_s \<and>
           mf_loop p (n_rows x) x_s kwargs [0..<f] (HF, g) = Inr (R1, g1) \<and>
           call_err_fn (err_fn p) x_s phi g1 = Inr (e, g2) \<and>
           column HF f = Inr col \<and>
           column R f = Inr (map2 (+) col (map (\<lambda>ei. Num sc * ei) e))"
proof -
  from assms(1,2) obtain x_s where
    sx: "scale_x x (fst (get_bound_arrays p)) (snd (get_bound_arrays p)) = Inr x_s" and
    loop: "mf_loop p (n_rows x) x_s kwargs [0..<n_obj p] (HF, g) = Inr (R, g')"
    by (auto simp: evaluate_MF_Inr)
  from loop \<open>f < n_obj p\<close> obtain R1 g1 R2 g2 where
    pre: "mf_loop p (n_rows x) x_s kwargs [0..<f] (HF, g) = Inr (R1, g1)" and
    step: "mf_step p (n_rows x) x_s kwargs f (R1, g1) = Inr (R2, g2)" and
    post: "mf_loop p (n_rows x) x_s kwargs [Suc f..<n_obj p] (R2, g2) = Inr (R, g')"
    by (rule mf_loop_split)
  from mf_loop_frame [OF pre, of f] assms(3,4)
  have wf1: "wf_matrix R1" and rows1: "n_rows R1 = n_rows x"
    and col1: "column R1 f = column HF f"
    by simp_all
  from step assms(6-9) obtain sc e col v where
    sc: "scale entry (f_kw f) = Some sc" and
    call: "call_err_fn (err_fn p) x_s phi g1 = Inr (e, g2)" and
    col: "column R1 f = Inr col" and
    add: "broadcast1 (+) col (map (\<lambda>ei. Num sc * ei) e) = Inr v" and
    asg: "assign_col R1 f v = Inr R2"
    by (auto simp: mf_step_def bind_err_eq_Inr split: option.splits)
  from call have "length e = n_rows x"
    using call_err_fn_length scale_x_rows [OF sx] by simp
  moreover from col have "length col = n_rows R1"
    by (auto simp: column_def n_rows_def split: if_splits)
  ultimately have v: "v = map2 (+) col (map (\<lambda>ei. Num sc * ei) e)" and "length v = n_rows R1"
    using add rows1 by (auto simp: broadcast1_same_length)
  with assign_col_same [OF asg wf1] have "column R2 f = Inr v"
    by simp
  moreover from mf_loop_frame [OF post, of f] have "column R f = column R2 f"
    by simp
  ultimately show ?thesis
    using sc sx pre call col col1 v by auto
qed

theorem positive_level_adds_scaled_error_witness:
  "evaluate_MF (MOMF2_4_1a E_s1) example_batch [''Phi_f1'' \<mapsto> 1] example_rng =
     Inr (\<lparr>n_cols = 2, rows = [[Num (64692949 / 62500 + 200 * sqrt 2), NaN]]\<rparr>,
          example_rng) \<and>
   (\<exists>sc x_s R1 g1 e g2 col.
      scale (calibration_entry [(1, 8697), (2, 6853), (3, 5000)]
               [(''f1'', 5385.6), (''f2'', 7.2515)]) (f_kw 0) = Some sc \<and>
      scale_x example_batch (fst (get_bound_arrays (MOMF2_4_1a E_s1)))
        (snd (get_bound_arrays (MOMF2_4_1a E_s1))) = Inr x_s \<and>
      mf_loop (MOMF2_4_1a E_s1) (n_rows example_batch) x_s [''Phi_f1'' \<mapsto> 1] [0..<0]
        (\<lparr>n_cols = 2, rows = [[Num (1000 + 200 * sqrt 2), Num (1 / 25)]]\<rparr>, example_rng) =
        Inr (R1, g1) \<and>
      call_err_fn (err_fn (MOMF2_4_1a E_s1)) x_s 8697 g1 = Inr (e, g2) \<and>
      column \<lparr>n_cols = 2, rows = [[Num (1000 + 200 * sqrt 2), Num (1 / 25)]]\<rparr> 0 = Inr col \<and>
      column \<lparr>n_cols = 2, rows = [[Num (64692949 / 62500 + 200 * sqrt 2), NaN]]\<rparr> 0 =
        Inr (map2 (+) col (map (\<lambda>ei. Num sc * ei) e)))"
proof -
  have h1: "evaluate_MF (MOMF2_4_1a E_s1) example_batch [''Phi_f1'' \<mapsto> 1] example_rng =
     Inr (\<lparr>n_cols = 2, rows = [[Num (64692949 / 62500 + 200 * sqrt 2), NaN]]\<rparr>,
          example_rng)"
    by (rule MOMF2_4_1a_example_MF)
  have h2: "evaluate (MOMF2_4_1a E_s1) example_batch =
     Inr \<lparr>n_cols = 2, rows = [[Num (1000 + 200 * sqrt 2), Num (1 / 25)]]\<rparr>"
    by (rule MOMF2_4_1a_evaluate_example)
  have h3: "wf_matrix \<lparr>n_cols = 2, rows = [[Num (1000 + 200 * sqrt 2), Num (1 / 25)]]\<rparr>"
    by (simp add: wf_matrix_def)
  have h4: "n_rows \<lparr>n_cols = 2, rows = [[Num (1000 + 200 * sqrt 2), Num (1 / 25)]]\<rparr> =
      n_rows example_batch"
    by (simp add: n_rows_def example_batch_def)
  have h5: "0 < n_obj (MOMF2_4_1a E_s1)"
    by (simp add: MOMF2_4_1a_def)
  have h6: "[''Phi_f1'' \<mapsto> (1::int)] (Phi_kw 0) = Some 1"
    by (simp add: Phi_kw_simps)
  have h7: "(0::int) < 1"
    by simp
  have h9: "Phi (calibration_entry [(1, 8697), (2, 6853), (3, 5000)]
             [(''f1'', 5385.6), (''f2'', 7.2515)]) 1 = Some 8697"
    by (simp add: calibration_entry_def)
  from positive_level_adds_scaled_error
    [OF h1 h2 h3 h4 h5 h6 h7 MOMF2_4_1a_mf_def_e_s1 h9] h1
  show ?thesis
    by simp
qed







text \<open>
  Claim C5. For a batch with one column per variable, an entry \<open>v\<close> of column
  \<open>j\<close> between the bounds \<open>lower < upper\<close> of variable \<open>j\<close> is scaled to
  \<open>2 * (v - lower) / (upper - lower) - 1\<close>, which lies between -1 and 1, is -1 at
  the lower bound and 1 at the upper bound.
\<close>

theorem scaled_batch_in_range:
  assumes "n_cols x = n_var p" and "i < n_rows x" and "j < n_var p"
    and "vars p ! j = (name, lower, upper)" and "lower < upper"
    and "rows x ! i ! j = Num v" and "lower \<le> v" and "v \<le> upper"
  shows "\<exists>x_s y. scale_x x (fst (get_bound_arrays p)) (snd (get_bound_arrays p)) = Inr x_s \<and>
           rows x_s ! i ! j = Num y \<and> y = 2 * (v - lower) / (upper - lower) - 1 \<and>
           - 1 \<le> y \<and> y \<le> 1 \<and> (v = lower \<longrightarrow> y = - 1) \<and> (v = upper \<longrightarrow> y = 1)"
proof -
  let ?y = "2 * (v - lower) / (upper - lower) - 1"
  have pos: "0 < upper - lower"
    using \<open>lower < upper\<close> by simp
  have entry: "bget x i j = Num v"
    using assms(1,2,3,6) by (simp add: bget_nth)
  have "Num 2 * (bget x i j - fst (get_bound_arrays p) ! j)
          / (snd (get_bound_arrays p) ! j - fst (get_bound_arrays p) ! j) + Num (- 1) = Num ?y"
    using pos by (simp add: entry get_bound_arrays_nth [OF assms(3,4)] minus_npfloat_def)
  then have "\<exists>x_s. scale_x x (fst (get_bound_arrays p)) (snd (get_bound_arrays p)) = Inr x_s \<and>
      rows x_s ! i ! j = Num ?y"
    using assms(1,2,3) by (simp add: scale_x_entries get_bound_arrays_length)
  moreover have "0 \<le> 2 * (v - lower) / (upper - lower)"
    using pos \<open>lower \<le> v\<close> by simp
  moreover have "2 * (v - lower) / (upper - lower) \<le> 2"
    using pos \<open>v \<le> upper\<close> by (simp add: pos_divide_le_eq)
  moreover have "v = upper \<longrightarrow> 2 * (v - lower) / (upper - lower) = 2"
    using pos by (simp add: field_simps)
  ultimately show ?thesis
    by auto
qed

theorem scaled_batch_in_range_witness:
  "n_cols example_batch = n_var (MOMF2_4_1a E_r1) \<and> 0 < n_rows example_batch \<and>
   1 < n_var (MOMF2_4_1a E_r1) \<and>
   vars (MOMF2_4_1a E_r1) ! 1 = (''x2'', sqrt 2, 3) \<and> sqrt 2 < 3 \<and>
   rows example_batch ! 0 ! 1 = Num 2 \<and> sqrt 2 \<le> 2 \<and> (2::real) \<le> 3 \<and>
   (\<exists>x_s y. scale_x example_batch (fst (get_bound_arrays (MOMF2_4_1a E_r1)))
              (snd (get_bound_arrays (MOMF2_4_1a E_r1))) = Inr x_s \<and>
      rows x_s ! 0 ! 1 = Num y \<and> y = 2 * (2 - sqrt 2) / (3 - sqrt 2) - 1 \<and>
      - 1 \<le> y \<and> y \<le> 1)"
proof -
  have h1: "n_cols example_batch = n_var (MOMF2_4_1a E_r1)"
    by (simp add: example_batch_def n_var_def MOMF2_4_1a_def RE2_4_1_vars_def)
  have h2: "0 < n_rows example_batch"
    by (simp add: example_batch_def n_rows_def)
  have h3: "1 < n_var (MOMF2_4_1a E_r1)"
    by (simp add: n_var_def MOMF2_4_1a_def RE2_4_1_vars_def)
  have h4: "vars (MOMF2_4_1a E_r1) ! 1 = (''x2'', sqrt 2, 3)"
    by (simp add: MOMF2_4_1a_def RE2_4_1_vars_def RE2_4_1_a_def RE2_4_1_F_def
          RE2_4_1_sigma_def)
  have h6: "rows example_batch ! 0 ! 1 = Num 2"
    by (simp add: example_batch_def)
  have h7: "sqrt 2 \<le> 2"
    by (rule real_le_lsqrt) simp_all
  have h8: "(2::real) \<le> 3"
    by simp
  from scaled_batch_in_range [OF h1 h2 h3 h4 sqrt2_less_3 h6 h7 h8] h1 h2 h3 h4 h6 h7
    sqrt2_less_3
  show ?thesis
    by auto
qed

text \<open>
  Claim C10. A level that is present but not positive (zero or negative) leaves
  column \<open>f\<close> as \<open>evaluate\<close> computed it; the round of the loop returns its state
  unchanged, so it reads no table, adds no error and draws no random number.
\<close>

theorem nonpositive_level_is_high_fidelity:
  assumes "evaluate_MF p x kwargs g = Inr (R, g')"
    and "evaluate p x = Inr HF"
    and "f < n_obj p" and "kwargs (Phi_kw f) = Some level" and "\<not> 0 < level"
  shows "column R f = column HF f \<and> mf_step p n x_s kwargs f st = Inr st"
proof -
  from assms(1,2) obtain xs where
    loop: "mf_loop p (n_rows x) xs kwargs [0..<n_obj p] (HF, g) = Inr (R, g')"
    by (auto simp: evaluate_MF_Inr)
  from loop \<open>f < n_obj p\<close> obtain R1 g1 R2 g2 where
    pre: "mf_loop p (n_rows x) xs kwargs [0..<f] (HF, g) = Inr (R1, g1)" and
    step: "mf_step p (n_rows x) xs kwargs f (R1, g1) = Inr (R2, g2)" and
    post: "mf_loop p (n_rows x) xs kwargs [Suc f..<n_obj p] (R2, g2) = Inr (R, g')"
    by (rule mf_loop_split)
  have idle: "mf_step p m ys kwargs f s = Inr s" for m ys s
    using assms(4,5) by (simp add: mf_step_def split: prod.splits)
  from step have "R2 = R1"
    by (simp add: idle)
  moreover from mf_loop_frame [OF pre, of f] have "column R1 f = column HF f"
    by simp
  moreover from mf_loop_frame [OF post, of f] have "column R f = column R2 f"
    by simp
  ultimately show ?thesis
    by (simp add: idle)
qed

theorem nonpositive_level_is_high_fidelity_witness:
  "evaluate_MF (MOMF2_4_1a E_r1) example_batch [''Phi_f1'' \<mapsto> - 5, ''Phi_f2'' \<mapsto> 0]
     example_rng =
     Inr (\<lparr>n_cols = 2, rows = [[Num (1000 + 200 * sqrt 2), Num (1 / 25)]]\<rparr>, example_rng) \<and>
   [''Phi_f1'' \<mapsto> - 5, ''Phi_f2'' \<mapsto> 0] (Phi_kw 0) = Some (- 5 :: int) \<and>
   column \<lparr>n_cols = 2, rows = [[Num (1000 + 200 * sqrt 2), Num (1 / 25)]]\<rparr> 0 =
     Inr [Num (1000 + 200 * sqrt 2)] \<and>
   mf_step (MOMF2_4_1a E_r1) 1 example_batch [''Phi_f1'' \<mapsto> - 5, ''Phi_f2'' \<mapsto> 0] 0
     (example_batch, example_rng) = Inr (example_batch, example_rng)"
proof -
  have h1: "evaluate_MF (MOMF2_4_1a E_r1) example_batch [''Phi_f1'' \<mapsto> - 5, ''Phi_f2'' \<mapsto> 0]
     example_rng =
     Inr (\<lparr>n_cols = 2, rows = [[Num (1000 + 200 * sqrt 2), Num (1 / 25)]]\<rparr>, example_rng)"
    by (simp add: evaluate_MF_def case_prod_beta MOMF2_4_1a_example_scale
          MOMF2_4_1a_evaluate_example)
       (simp add: MOMF2_4_1a_def mf_step_def Phi_kw_simps upt_rec)
  have h2: "evaluate (MOMF2_4_1a E_r1) example_batch =
     Inr \<lparr>n_cols = 2, rows = [[Num (1000 + 200 * sqrt 2), Num (1 / 25)]]\<rparr>"
    by (rule MOMF2_4_1a_evaluate_example)
  have h3: "0 < n_obj (MOMF2_4_1a E_r1)"
    by (simp add: MOMF2_4_1a_def)
  have h4: "[''Phi_f1'' \<mapsto> - 5, ''Phi_f2'' \<mapsto> 0] (Phi_kw 0) = Some (- 5 :: int)"
    by (simp add: Phi_kw_simps)
  have h5: "\<not> 0 < (- 5 :: int)"
    by simp
  have h6: "column \<lparr>n_cols = 2, rows = [[Num (1000 + 200 * sqrt 2), Num (1 / 25)]]\<rparr> 0 =
     Inr [Num (1000 + 200 * sqrt 2)]"
    by (simp add: column_def)
  from nonpositive_level_is_high_fidelity
    [OF h1 h2 h3 h4 h5, of 1 example_batch "(example_batch, example_rng)"]
  have h7: "mf_step (MOMF2_4_1a E_r1) 1 example_batch [''Phi_f1'' \<mapsto> - 5, ''Phi_f2'' \<mapsto> 0] 0
     (example_batch, example_rng) = Inr (example_batch, example_rng)"
    by (rule conjunct2)
  from h1 h4 h6 h7 show ?thesis
    by (intro conjI)
qed

section \<open>Claims about the error functions\<close>

text \<open>
  Claim C8. For every batch, every fidelity value and every random source, \<open>e_ins1\<close>
  and \<open>e_ins2\<close> return one value per row, and each value is 0 or 10 times the
  column count of the batch.
\<close>

theorem instability_error_values:
  "(\<exists>e g'. e_ins1 x phi g = Inr (e, g') \<and> length e = n_rows x \<and>
       (\<forall>v \<in> set e. v = Num 0 \<or> v = Num (10 * real (n_cols x)))) \<and>
   (\<exists>e g'. e_ins2 x phi g = Inr (e, g') \<and> length e = n_rows x \<and>
       (\<forall>v \<in> set e. v = Num 0 \<or> v = Num (10 * real (n_cols x))))"
  by (auto simp: e_ins1_def e_ins2_def Let_def case_prod_beta instability_error_def)

theorem instability_error_values_witness:
  "e_ins1 example_batch 5000 example_rng = Inr ([Num 0], example_rng) \<and>
   e_ins2 example_batch (- 100) (\<lambda>i. 0) = Inr ([Num 40], \<lambda>i. 0) \<and>
   length [Num 40] = n_rows example_batch \<and>
   (Num 40 = Num 0 \<or> Num 40 = Num (10 * real (n_cols example_batch)))"
proof -
  from instability_error_values [of example_batch "- 100" "\<lambda>i. 0"]
  have "length [Num 40] = n_rows example_batch \<and>
      (\<forall>v \<in> set [Num 40]. v = Num 0 \<or> v = Num (10 * real (n_cols example_batch)))"
    by (simp only: e_ins2_example) blast
  then have "length [Num 40] = n_rows example_batch"
    and "Num 40 = Num 0 \<or> Num 40 = Num (10 * real (n_cols example_batch))"
    by simp_all
  with e_ins1_example e_ins2_example show ?thesis
    by (intro conjI)
qed

text \<open>
  Claim C9, as the code has it. The module defines 10 error functions with distinct
  names: 4 for resolution errors, 4 for stochastic errors and 2 for instability
  errors. Each returns one noise value per row of the batch when it returns. (One
  of them, \<open>e_r4\<close>, takes the vector \<open>x_b\<close> as a third argument.)
\<close>

theorem error_function_set:
  "length error_functions = 10 \<and> distinct (map fn_name error_functions) \<and>
   set error_functions = UNIV \<and>
   length (filter (\<lambda>fn. family_of fn = Resolution) error_functions) = 4 \<and>
   length (filter (\<lambda>fn. family_of fn = Stochastic) error_functions) = 4 \<and>
   length (filter (\<lambda>fn. family_of fn = Instability) error_functions) = 2 \<and>
   (\<forall>fn \<in> set error_functions. \<forall>x phi x_b g e g'.
      apply_err_fn fn x phi x_b g = Inr (e, g') \<longrightarrow> length e = n_rows x)"
proof -
  have "set error_functions = UNIV"
  proof -
    have "fn \<in> set error_functions" for fn
      by (cases fn) (simp_all add: error_functions_def)
    then show ?thesis by blast
  qed
  then show ?thesis
    by (auto simp: error_functions_def dest: apply_err_fn_length)
qed

theorem error_function_set_witness:
  "E_s1 \<in> set error_functions \<and>
   apply_err_fn E_s1 example_batch 5000 [] example_rng = Inr ([Num (1 / 40)], example_rng) \<and>
   length [Num (1 / 40)] = n_rows example_batch"
proof -
  have h1: "apply_err_fn E_s1 example_batch 5000 [] example_rng =
      Inr ([Num (1 / 40)], example_rng)"
    by (simp add: e_s1_def rand_def example_batch_def example_rng_def n_rows_def)
  from error_function_set have h2: "E_s1 \<in> set error_functions"
    by simp
  from error_function_set
  have "\<forall>fn \<in> set error_functions. \<forall>x phi x_b g e g'.
      apply_err_fn fn x phi x_b g = Inr (e, g') \<longrightarrow> length e = n_rows x"
    by (elim conjE)
  with h1 h2 have h3: "length [Num (1 / 40)] = n_rows example_batch"
    by blast
  from h2 h1 h3 show ?thesis
    by (intro conjI)
qed

text \<open>
  The count of the functions is not 13.
\<close>

theorem error_function_count_counterexample:
  "length error_functions \<noteq> 13"
  by (simp add: error_functions_def)

section \<open>Claims about the shape of the batch\<close>

lemma RE2_4_1_too_few_columns:
  "n_cols x < 4 \<Longrightarrow> RE2_4_1_evaluate_obj x = Inl IndexError"
  by (auto simp: RE2_4_1_evaluate_obj_def column_def)

lemma DTLZ_s_too_few_columns:
  assumes "n_cols x_pos + 1 < n"
  shows "DTLZ_s beta n x_pos = Inl IndexError"
proof -
  from assms obtain m where n: "n = Suc (Suc m)" and m: "n_cols x_pos \<le> m"
    by (cases n; cases "n - 1") auto
  then have "rev [0..<n - 1] = m # rev [0..<m]"
    by simp
  with m show ?thesis
    by (simp add: DTLZ_s_def column_def Let_def)
qed

lemma DTLZ2_too_few_columns:
  assumes "n_cols x + 1 < n"
  shows "DTLZ2_evaluate_obj n beta x = Inl IndexError"
proof -
  have "n_cols (cols_to x (int n - 1)) \<le> n_cols x"
    by (simp add: cols_to_def slice_bound_def)
  with assms show ?thesis
    by (simp add: DTLZ2_evaluate_obj_def Let_def DTLZ_s_too_few_columns)
qed

text \<open>
  Claim C6, as the code has it. Neither method checks the column count of the batch.
  \<open>evaluate_MF\<close> fails on a batch whose column count differs from the variable
  count when neither count is 1: it raises what \<open>evaluate\<close> raises, or else the
  \<open>ValueError\<close> of the scaling step, whose operands do not broadcast. \<open>evaluate\<close>
  of the four bar truss problem raises an \<open>IndexError\<close> on a batch of fewer than 4
  columns, and \<open>evaluate\<close> of the scalable problem on a batch of fewer than
  \<open>n_obj - 1\<close> columns.
\<close>

theorem column_count_mismatch:
  "(n_cols x \<noteq> n_var p \<longrightarrow> n_cols x \<noteq> 1 \<longrightarrow> n_var p \<noteq> 1 \<longrightarrow>
      evaluate_MF p x kwargs g =
        (case evaluate p x of Inl e \<Rightarrow> Inl e | Inr HF \<Rightarrow> Inl ValueError)) \<and>
   (n_cols y < 4 \<longrightarrow> evaluate RE2_4_1 y = Inl IndexError) \<and>
   (n_cols z + 1 < n \<longrightarrow> evaluate (DTLZ2 n k beta) z = Inl IndexError)"
proof (intro conjI impI)
  assume "n_cols x \<noteq> n_var p" and "n_cols x \<noteq> 1" and "n_var p \<noteq> 1"
  then have "scale_x x (fst (get_bound_arrays p)) (snd (get_bound_arrays p)) = Inl ValueError"
    by (rule scale_x_mismatch)
  then show "evaluate_MF p x kwargs g =
      (case evaluate p x of Inl e \<Rightarrow> Inl e | Inr HF \<Rightarrow> Inl ValueError)"
    by (cases "evaluate p x") (simp_all add: evaluate_MF_def case_prod_beta)
next
  assume "n_cols y < 4"
  then show "evaluate RE2_4_1 y = Inl IndexError"
    by (simp add: evaluate_def RE2_4_1_def RE2_4_1_too_few_columns)
next
  assume "n_cols z + 1 < n"
  then show "evaluate (DTLZ2 n k beta) z = Inl IndexError"
    by (simp add: evaluate_def DTLZ2_def DTLZ2_too_few_columns)
qed

lemma DTLZ2_narrow:
  "DTLZ2_evaluate_obj 2 (Suc 0) narrow_batch = Inr \<lparr>n_cols = 2, rows = [[Num 1, Num 0]]\<rparr>"
  by (simp add: DTLZ2_evaluate_obj_def DTLZ_s_def DTLZ_g_def DTLZ_g_row_def prod_cos_def
        cols_to_def cols_from_def slice_bound_def narrow_batch_def array_defs np_sum_def
        np_prod_def Let_def upt_rec)

lemma n_var_MOMF3_7_1: "n_var (MOMF3_7_1 fn 2 5 beta) = 6"
  by (simp add: n_var_def MOMF3_7_1_def DTLZ_vars_def)

lemma MOMF3_7_1_narrow:
  "evaluate_MF (MOMF3_7_1 E_r1 2 5 1) narrow_batch [''Phi_f1'' \<mapsto> 0, ''Phi_f2'' \<mapsto> 0]
     example_rng = Inr (\<lparr>n_cols = 2, rows = [[Num 1, Num 0]]\<rparr>, example_rng)"
  apply (simp add: evaluate_MF_def evaluate_def case_prod_beta)
  apply (simp add: MOMF3_7_1_def DTLZ2_narrow)
  apply (simp add: scale_x_def get_bound_arrays_def DTLZ_vars_def narrow_batch_def
      array_defs upt_rec mf_step_def Phi_kw_simps comp_def)
  done

theorem column_count_mismatch_witness:
  "n_cols wide_batch \<noteq> n_var (MOMF2_4_1a E_r1) \<and> n_cols wide_batch \<noteq> 1 \<and>
   n_var (MOMF2_4_1a E_r1) \<noteq> 1 \<and>
   evaluate_MF (MOMF2_4_1a E_r1) wide_batch [''Phi_f1'' \<mapsto> 0, ''Phi_f2'' \<mapsto> 0] example_rng =
     Inl ValueError \<and>
   n_cols narrow_batch < 4 \<and> evaluate RE2_4_1 narrow_batch = Inl IndexError \<and>
   n_cols narrow_batch + 1 < 3 \<and> evaluate (DTLZ2 3 5 1) narrow_batch = Inl IndexError"
proof -
  have h1: "n_cols wide_batch \<noteq> n_var (MOMF2_4_1a E_r1)"
    by (simp add: wide_batch_def n_var_def MOMF2_4_1a_def RE2_4_1_vars_def)
  have h2: "n_cols wide_batch \<noteq> 1"
    by (simp add: wide_batch_def)
  have h3: "n_var (MOMF2_4_1a E_r1) \<noteq> 1"
    by (simp add: n_var_def MOMF2_4_1a_def RE2_4_1_vars_def)
  have h4: "n_cols narrow_batch < 4"
    by (simp add: narrow_batch_def)
  have h5: "n_cols narrow_batch + 1 < 3"
    by (simp add: narrow_batch_def)
  have e: "evaluate (MOMF2_4_1a E_r1) wide_batch =
     Inr \<lparr>n_cols = 2, rows = [[Num (1000 + 200 * sqrt 2), Num (1 / 25)]]\<rparr>"
    using RE2_4_1_wide by (simp add: evaluate_def MOMF2_4_1a_def RE2_4_1_def)
  note c = column_count_mismatch
    [where x = wide_batch and p = "MOMF2_4_1a E_r1"
       and kwargs = "[''Phi_f1'' \<mapsto> 0, ''Phi_f2'' \<mapsto> 0]" and g = example_rng
       and y = narrow_batch and z = narrow_batch and n = 3 and k = 5 and beta = 1]
  from c h1 h2 h3 have h6: "evaluate_MF (MOMF2_4_1a E_r1) wide_batch
      [''Phi_f1'' \<mapsto> 0, ''Phi_f2'' \<mapsto> 0] example_rng = Inl ValueError"
    by (simp only: e sum.case) blast
  from c h4 have h7: "evaluate RE2_4_1 narrow_batch = Inl IndexError"
    by blast
  from c h5 have h8: "evaluate (DTLZ2 3 5 1) narrow_batch = Inl IndexError"
    by blast
  from h1 h2 h3 h6 h4 h7 h5 h8 show ?thesis
    by (intro conjI)
qed

text \<open>
  On a batch with a fifth column \<open>evaluate\<close> of the four bar truss problem returns
  the objectives of the first four columns; on a batch of one column \<open>evaluate_MF\<close>
  of the scalable problem with two objectives and six variables returns a matrix.
\<close>

theorem column_count_mismatch_counterexample:
  "n_cols wide_batch \<noteq> n_var RE2_4_1 \<and>
   evaluate RE2_4_1 wide_batch =
     Inr \<lparr>n_cols = 2, rows = [[Num (1000 + 200 * sqrt 2), Num (1 / 25)]]\<rparr> \<and>
   n_cols narrow_batch \<noteq> n_var (MOMF3_7_1 E_r1 2 5 1) \<and>
   evaluate_MF (MOMF3_7_1 E_r1 2 5 1) narrow_batch [''Phi_f1'' \<mapsto> 0, ''Phi_f2'' \<mapsto> 0]
     example_rng = Inr (\<lparr>n_cols = 2, rows = [[Num 1, Num 0]]\<rparr>, example_rng)"
proof (intro conjI)
  show "n_cols wide_batch \<noteq> n_var RE2_4_1"
    by (simp add: wide_batch_def n_var_def RE2_4_1_def RE2_4_1_vars_def)
  show "n_cols narrow_batch \<noteq> n_var (MOMF3_7_1 E_r1 2 5 1)"
    by (simp only: n_var_MOMF3_7_1) (simp add: narrow_batch_def)
qed (rule RE2_4_1_wide MOMF3_7_1_narrow)+

section \<open>Claims about the scalable problems\<close>

text \<open>
  Finite inputs give finite values: no operation of \<open>g\<close> and \<open>s\<close> divides or takes
  a root.
\<close>

lemma is_finite_iff: "is_finite a \<longleftrightarrow> (\<exists>r. a = Num r)"
  by (cases a) simp_all

lemma is_finite_plus: "is_finite a \<Longrightarrow> is_finite b \<Longrightarrow> is_finite (a + b)"
  by (auto simp: is_finite_iff)

lemma is_finite_minus: "is_finite a \<Longrightarrow> is_finite b \<Longrightarrow> is_finite (a - b)"
  by (auto simp: is_finite_iff minus_npfloat_def)

lemma is_finite_times: "is_finite a \<Longrightarrow> is_finite b \<Longrightarrow> is_finite (a * b)"
  by (auto simp: is_finite_iff)

lemma is_finite_half_pi: "is_finite a \<Longrightarrow> is_finite (a * Num pi / Num 2)"
  by (cases a) simp_all

lemma is_finite_cos: "is_finite a \<Longrightarrow> is_finite (np_cos a)"
  by (auto simp: is_finite_iff)

lemma is_finite_sin: "is_finite a \<Longrightarrow> is_finite (np_sin a)"
  by (auto simp: is_finite_iff)

lemma is_finite_power: "is_finite a \<Longrightarrow> is_finite (np_power a n)"
  by (cases n) (auto simp: is_finite_iff)

lemma is_finite_foldl_plus:
  "list_all is_finite xs \<Longrightarrow> is_finite acc \<Longrightarrow> is_finite (foldl (+) acc xs)"
  by (induction xs arbitrary: acc) (simp_all add: is_finite_plus)

lemma is_finite_foldl_times:
  "list_all is_finite xs \<Longrightarrow> is_finite acc \<Longrightarrow> is_finite (foldl (*) acc xs)"
  by (induction xs arbitrary: acc) (simp_all add: is_finite_times)

lemma is_finite_np_sum: "list_all is_finite xs \<Longrightarrow> is_finite (np_sum xs)"
  by (simp add: np_sum_def is_finite_foldl_plus)

lemma is_finite_np_prod: "list_all is_finite xs \<Longrightarrow> is_finite (np_prod xs)"
  by (simp add: np_prod_def is_finite_foldl_times)

lemma is_finite_prod_cos:
  "list_all (list_all is_finite) (rows m) \<Longrightarrow> list_all is_finite (prod_cos m)"
  by (auto simp: prod_cos_def list_all_iff intro!: is_finite_np_prod is_finite_cos
        is_finite_half_pi)

lemma length_prod_cos [simp]: "length (prod_cos m) = n_rows m"
  by (simp add: prod_cos_def n_rows_def)

lemma is_finite_DTLZ_g_row: "list_all is_finite r \<Longrightarrow> is_finite (DTLZ_g_row d r)"
  unfolding DTLZ_g_row_def
  by (intro is_finite_plus is_finite_np_sum)
     (auto simp: list_all_iff intro!: is_finite_minus is_finite_power is_finite_cos
        is_finite_times)

lemma finite_cols_to:
  "list_all (list_all is_finite) (rows m) \<Longrightarrow>
   list_all (list_all is_finite) (rows (cols_to m k))"
  by (auto simp: cols_to_def list_all_iff dest: in_set_takeD)

lemma finite_cols_from:
  "list_all (list_all is_finite) (rows m) \<Longrightarrow>
   list_all (list_all is_finite) (rows (cols_from m k))"
  by (auto simp: cols_from_def list_all_iff dest: in_set_dropD)

lemma n_rows_cols_to [simp]: "n_rows (cols_to m k) = n_rows m"
  by (simp add: cols_to_def n_rows_def)

lemma n_rows_cols_from [simp]: "n_rows (cols_from m k) = n_rows m"
  by (simp add: cols_from_def n_rows_def)

lemma wf_cols_to: "wf_matrix m \<Longrightarrow> wf_matrix (cols_to m k)"
  by (auto simp: wf_matrix_def cols_to_def slice_bound_def list_all_iff)

lemma finite_column:
  assumes "wf_matrix m" and "list_all (list_all is_finite) (rows m)"
    and "column m j = Inr c"
  shows "list_all is_finite c" and "length c = n_rows m"
  using assms
  by (auto simp: column_def wf_matrix_def list_all_iff n_rows_def split: if_splits)

text \<open>The matrices the loop of \<open>s\<close> builds: rectangular, of \<open>N\<close> rows, with finite entries.\<close>

lemma DTLZ_s_loop_invariant:
  assumes "wf_matrix x_pos" and "list_all (list_all is_finite) (rows x_pos)"
  shows "DTLZ_s_loop beta x_pos js S = Inr S' \<Longrightarrow>
         wf_matrix S \<Longrightarrow> n_rows S = n_rows x_pos \<Longrightarrow>
         list_all (list_all is_finite) (rows S) \<Longrightarrow>
         wf_matrix S' \<and> n_rows S' = n_rows x_pos \<and> list_all (list_all is_finite) (rows S')"
proof (induction js arbitrary: S)
  case Nil
  then show ?case by simp
next
  case (Cons j js)
  let ?left = "prod_cos (cols_to x_pos (int j))"
  from Cons.prems(1) obtain ci t S1 where
    ci: "column x_pos j = Inr ci" and
    t: "broadcast1 (*) ?left (map (\<lambda>a. np_sin (a * Num pi / Num 2)) ci) = Inr t" and
    S1: "hstack S (as_column (map (\<lambda>a. np_power a beta) t)) = Inr S1" and
    rest: "DTLZ_s_loop beta x_pos js S1 = Inr S'"
    by (auto simp: Let_def bind_err_eq_Inr)
  from finite_column [OF assms ci] have fin_ci: "list_all is_finite ci"
    and len_ci: "length ci = n_rows x_pos" .
  have fin_left: "list_all is_finite ?left"
    by (intro is_finite_prod_cos finite_cols_to assms(2))
  from t len_ci have t_eq: "t = map2 (*) ?left (map (\<lambda>a. np_sin (a * Num pi / Num 2)) ci)"
    by (simp add: broadcast1_same_length)
  have len_t: "length t = n_rows x_pos"
    by (simp add: t_eq len_ci)
  have fin_t: "list_all is_finite t"
    using fin_left fin_ci unfolding t_eq list_all_iff
    by (auto dest!: set_zip_leftD set_zip_rightD intro!: is_finite_times is_finite_sin
          is_finite_half_pi elim!: in_set_zipE)
  from S1 have S1_eq: "S1 = \<lparr>n_cols = n_cols S + 1,
      rows = map2 (@) (rows S) (map (\<lambda>a. [np_power a beta]) t)\<rparr>"
    by (auto simp: hstack_def as_column_def n_rows_def comp_def split: if_splits)
  have "wf_matrix S1"
    using Cons.prems(2) unfolding S1_eq wf_matrix_def list_all_iff
    by (auto elim!: in_set_zipE)
  moreover have "n_rows S1 = n_rows x_pos"
    using Cons.prems(3) len_t by (simp add: S1_eq n_rows_def)
  moreover have "list_all (list_all is_finite) (rows S1)"
    using Cons.prems(4) fin_t unfolding S1_eq list_all_iff
    by (auto elim!: in_set_zipE intro!: is_finite_power)
  ultimately show ?case
    using Cons.IH [OF rest] by simp
qed

lemma DTLZ_s_result:
  assumes "wf_matrix x_pos" and "list_all (list_all is_finite) (rows x_pos)"
    and "DTLZ_s beta n x_pos = Inr S"
  shows "wf_matrix S \<and> n_rows S = n_rows x_pos \<and> list_all (list_all is_finite) (rows S)"
proof (rule DTLZ_s_loop_invariant [OF assms(1,2) assms(3) [unfolded DTLZ_s_def]])
  show "wf_matrix (as_column (map (\<lambda>a. np_power a beta) (prod_cos x_pos)))"
    by (simp add: wf_matrix_def as_column_def list_all_iff)
  show "n_rows (as_column (map (\<lambda>a. np_power a beta) (prod_cos x_pos))) = n_rows x_pos"
    by (simp add: as_column_def n_rows_def prod_cos_def)
  show "list_all (list_all is_finite)
          (rows (as_column (map (\<lambda>a. np_power a beta) (prod_cos x_pos))))"
    using is_finite_prod_cos [OF assms(2)]
    by (auto simp: as_column_def list_all_iff intro: is_finite_power)
qed

lemma bdim_one_left [simp]: "bdim (Suc 0) c = Some c"
  by (simp add: bdim_def)

lemma broadcast2_column:
  assumes "n_cols a = 1" and "n_rows a = n_rows b"
  shows "broadcast2 h a b =
     Inr \<lparr>n_cols = n_cols b,
          rows = map (\<lambda>i. map (\<lambda>j. h (rows a ! i ! 0) (rows b ! i ! j)) [0..<n_cols b])
                     [0..<n_rows b]\<rparr>"
  using assms by (auto simp: broadcast2_def bget_def)

lemma n_cols_mat_map: "n_cols (mat_map h m) = n_cols m"
  by (simp add: mat_map_def)

lemma DTLZ_g_shape [simp]:
  "n_cols (DTLZ_g x_m) = 1" "n_rows (DTLZ_g x_m) = n_rows x_m"
  by (simp_all add: DTLZ_g_def as_column_def n_rows_def)

lemma DTLZ_g_row_nth:
  "i < n_rows x_m \<Longrightarrow>
   rows (DTLZ_g x_m) ! i = [DTLZ_g_row (n_cols x_m) (rows x_m ! i)]"
  by (simp add: DTLZ_g_def as_column_def n_rows_def)

text \<open>
  Claim C7. For the same parameters and the same batch of finite numbers, wherever
  \<open>DTLZ2\<close> returns, \<open>InvertedDTLZ2\<close> returns a matrix of the same shape, and each
  of its entries is \<open>(1 + g)\<close> minus the entry of \<open>DTLZ2\<close>, with \<open>g\<close> the value of the
  method \<open>g\<close> on that row. In exact arithmetic the two are equal, not only close.
\<close>

theorem inverted_is_complement:
  assumes "wf_matrix x" and "list_all (list_all is_finite) (rows x)"
    and "evaluate (DTLZ2 n k beta) x = Inr A" and "i < n_rows A" and "j < n_cols A"
  shows "\<exists>B g a. evaluate (InvertedDTLZ2 n k beta) x = Inr B \<and>
           n_rows B = n_rows A \<and> n_cols B = n_cols A \<and>
           rows (DTLZ_g (cols_from x (int n - 1))) ! i = [Num g] \<and>
           rows A ! i ! j = Num a \<and> rows B ! i ! j = Num ((1 + g) - a)"
proof -
  let ?x_pos = "cols_to x (int n - 1)" and ?x_m = "cols_from x (int n - 1)"
  let ?G = "mat_map (\<lambda>a. Num 1 + a) (DTLZ_g ?x_m)"
  from assms(3) obtain S where
    S: "DTLZ_s beta n ?x_pos = Inr S" and A: "broadcast2 (*) ?G S = Inr A"
    by (auto simp: evaluate_def DTLZ2_def DTLZ2_evaluate_obj_def Let_def bind_err_eq_Inr)
  from DTLZ_s_result [OF wf_cols_to [OF assms(1)] finite_cols_to [OF assms(2)] S]
  have wfS: "wf_matrix S" and rowsS: "n_rows S = n_rows x"
    and finS: "list_all (list_all is_finite) (rows S)"
    by simp_all
  let ?S' = "mat_map (\<lambda>a. Num 1 - a) S"
  have G1: "n_cols ?G = 1" and G2: "n_rows ?G = n_rows S" and G3: "n_rows ?G = n_rows ?S'"
    by (simp_all add: rowsS) (simp add: mat_map_def)
  from A have A_eq: "A = \<lparr>n_cols = n_cols S,
      rows = map (\<lambda>i. map (\<lambda>j. rows ?G ! i ! 0 * rows S ! i ! j) [0..<n_cols S])
                 [0..<n_rows S]\<rparr>"
    by (simp add: broadcast2_column [OF G1 G2])
  define B where "B = \<lparr>n_cols = n_cols ?S',
      rows = map (\<lambda>i. map (\<lambda>j. rows ?G ! i ! 0 * rows ?S' ! i ! j) [0..<n_cols ?S'])
                 [0..<n_rows ?S']\<rparr>"
  have B: "evaluate (InvertedDTLZ2 n k beta) x = Inr B"
    by (simp add: evaluate_def InvertedDTLZ2_def InvertedDTLZ2_evaluate_obj_def Let_def S
          broadcast2_column [OF G1 G3] B_def)
  from assms(4,5) have i: "i < n_rows S" and j: "j < n_cols S"
    by (simp_all add: A_eq n_rows_def)
  from i have ix: "i < n_rows ?x_m"
    by (simp add: rowsS)
  have row_len: "length (rows S ! i) = n_cols S"
    using wfS i by (simp add: wf_matrix_def list_all_length n_rows_def)
  have "list_all is_finite (rows ?x_m ! i)"
    using finite_cols_from [OF assms(2), of "int n - 1"] ix
    by (simp add: list_all_length n_rows_def)
  then obtain g where g: "DTLZ_g_row (n_cols ?x_m) (rows ?x_m ! i) = Num g"
    using is_finite_DTLZ_g_row is_finite_iff by blast
  have "is_finite (rows S ! i ! j)"
    using finS i j row_len by (simp add: list_all_length n_rows_def)
  then obtain s where s: "rows S ! i ! j = Num s"
    using is_finite_iff by blast
  have Gi: "rows ?G ! i ! 0 = Num (1 + g)"
    using ix g by (simp add: mat_map_def DTLZ_g_row_nth n_rows_def [symmetric])
  have S'ij: "rows ?S' ! i ! j = Num (1 - s)"
    using i j row_len s by (simp add: mat_map_def n_rows_def minus_npfloat_def)
  have "rows A ! i ! j = Num ((1 + g) * s)"
    using i j by (simp add: A_eq n_rows_def Gi s)
  moreover have "rows B ! i ! j = Num ((1 + g) - (1 + g) * s)"
  proof -
    have "rows B ! i ! j = rows ?G ! i ! 0 * rows ?S' ! i ! j"
      using i j by (simp add: B_def n_cols_mat_map)
    also have "\<dots> = Num (1 + g) * Num (1 - s)"
      by (simp only: Gi S'ij)
    also have "\<dots> = Num ((1 + g) - (1 + g) * s)"
      by (simp add: algebra_simps)
    finally show ?thesis .
  qed
  moreover have "n_rows B = n_rows A" and "n_cols B = n_cols A"
    by (simp_all add: B_def A_eq n_rows_def mat_map_def)
  moreover have "rows (DTLZ_g ?x_m) ! i = [Num g]"
    using ix g by (simp add: DTLZ_g_row_nth)
  ultimately show ?thesis
    using B by blast
qed

lemma np_power_Num: "np_power (Num a) n = Num (a ^ n)"
  by (cases n) simp_all

lemma DTLZ2_example:
  "evaluate (DTLZ2 2 1 1) dtlz_batch = Inr \<lparr>n_cols = 2, rows = [[Num 1, Num 0]]\<rparr>"
  by (simp add: evaluate_def DTLZ2_def DTLZ2_evaluate_obj_def DTLZ_s_def DTLZ_g_def
        DTLZ_g_row_def prod_cos_def cols_to_def cols_from_def slice_bound_def dtlz_batch_def
        array_defs np_sum_def np_prod_def Let_def upt_rec np_power_Num)

theorem inverted_is_complement_witness:
  "wf_matrix dtlz_batch \<and> list_all (list_all is_finite) (rows dtlz_batch) \<and>
   evaluate (DTLZ2 2 1 1) dtlz_batch = Inr \<lparr>n_cols = 2, rows = [[Num 1, Num 0]]\<rparr> \<and>
   (\<exists>B g a. evaluate (InvertedDTLZ2 2 1 1) dtlz_batch = Inr B \<and>
      n_rows B = 1 \<and> n_cols B = 2 \<and>
      rows (DTLZ_g (cols_from dtlz_batch (int 2 - 1))) ! 0 = [Num g] \<and>
      Num 0 = Num a \<and> rows B ! 0 ! 1 = Num ((1 + g) - a))"
proof -
  have h1: "wf_matrix dtlz_batch"
    by (simp add: wf_matrix_def dtlz_batch_def)
  have h2: "list_all (list_all is_finite) (rows dtlz_batch)"
    by (simp add: dtlz_batch_def)
  have h4: "0 < n_rows \<lparr>n_cols = 2, rows = [[Num 1, Num 0]]\<rparr>"
    by (simp add: n_rows_def)
  have h5: "1 < n_cols \<lparr>n_cols = 2, rows = [[Num 1, Num 0]]\<rparr>"
    by simp
  from inverted_is_complement [OF h1 h2 DTLZ2_example h4 h5]
  have "\<exists>B g a. evaluate (InvertedDTLZ2 2 1 1) dtlz_batch = Inr B \<and>
      n_rows B = 1 \<and> n_cols B = 2 \<and>
      rows (DTLZ_g (cols_from dtlz_batch (int 2 - 1))) ! 0 = [Num g] \<and>
      Num 0 = Num a \<and> rows B ! 0 ! 1 = Num ((1 + g) - a)"
    by (simp add: n_rows_def)
  with h1 h2 DTLZ2_example show ?thesis
    by (intro conjI)
qed

end
